theory Spec2Isabelle
  imports Main "HOL-Library.Sublist"
begin

section \<open>The build orchestration of the command line (buildTina/index.ts)\<close>

text \<open>
  The functions of \<^verbatim>\<open>packages/@tinacms/cli/src/buildTina/index.ts\<close> are asynchronous
  JavaScript that mutates a context object, a Database object and the disk, and that may
  throw at every \<^verbatim>\<open>await\<close>. They are embedded as state transformers on a \<open>world\<close>
  (disk, heap of Bridge, Store and Database objects, log of the calls made) that return
  either the thrown error or the result.
\<close>

subsection \<open>Errors\<close>

datatype error =
    Error string
  | TypeError string
  | SchemaInvalid
  | WriteDenied
  | IOError
  | NotFound

subsection \<open>Paths and the disk\<close>

text \<open>
  A path is the list of its segments, the first one being the root it was joined to;
  \<^verbatim>\<open>path.join(root, a, b)\<close> is \<open>[root, a, b]\<close>.
\<close>

type_synonym path = "string list"

definition path_join :: "string \<Rightarrow> string list \<Rightarrow> path" where
  "path_join root segs = root # segs"

record filesystem =
  dirs :: "path set"
  files :: "path \<rightharpoonup> string"

text \<open>The directory itself and every directory above it, outermost first.\<close>

fun dir_chain :: "path \<Rightarrow> path list" where
  "dir_chain [] = []"
| "dir_chain (x # xs) = [x] # map ((#) x) (dir_chain xs)"

text \<open>
  \<^verbatim>\<open>fs.mkdirp\<close> and \<^verbatim>\<open>fs.ensureDirSync\<close> of fs-extra are the same operation: create the
  directory and its parents where they do not exist; it fails where a file is in the way.
\<close>

definition mkdirs :: "path \<Rightarrow> filesystem \<Rightarrow> error + filesystem" where
  "mkdirs p d =
     (if list_ex (\<lambda>q. files d q \<noteq> None) (dir_chain p) then Inl IOError
      else Inr (d\<lparr>dirs := dirs d \<union> set (dir_chain p)\<rparr>))"

subsection \<open>Schemas\<close>

type_synonym DocumentNode = string
type_synonym TinaSchema = string
type_synonym iso_options = string

record remote_config =
  remote_rootPath :: "string option"

record build_config =
  outputFolder :: "string option"
  publicFolder :: "string option"
  host :: "bool option"

record schema_config =
  remote :: "remote_config option"
  build_cfg :: "build_config option"

record compiled_schema =
  config :: "schema_config option"
  collections :: string

text \<open>\<^verbatim>\<open>compiledSchema.config?.remote?.rootPath\<close>\<close>

definition config_remote_rootPath :: "compiled_schema \<Rightarrow> string option" where
  "config_remote_rootPath s =
     (case config s of None \<Rightarrow> None
      | Some c \<Rightarrow> (case remote c of None \<Rightarrow> None | Some r \<Rightarrow> remote_rootPath r))"

text \<open>\<^verbatim>\<open>schema?.config?.build\<close>\<close>

definition config_build :: "compiled_schema \<Rightarrow> build_config option" where
  "config_build s = (case config s of None \<Rightarrow> None | Some c \<Rightarrow> build_cfg c)"

text \<open>A string is truthy when it is defined and not empty.\<close>

definition truthy :: "string option \<Rightarrow> string option" where
  "truthy s = (case s of None \<Rightarrow> None | Some v \<Rightarrow> if v = [] then None else Some v)"

subsection \<open>Bridge, Store and Database objects\<close>

datatype bridge_kind = FilesystemBridge | AuditFileSystemBridge | IsomorphicBridge

record bridge =
  kind :: bridge_kind
  bridge_rootPath :: string
  isomorphicOptions :: "iso_options option"
  outputPath :: "string option"

record level_store =
  store_rootPath :: string
  useMemoryStore :: bool
  opened :: bool
  records :: "path \<rightharpoonup> string"

text \<open>A Database holds references (addresses in the heap) to its Store and Bridge.\<close>

record database =
  db_store :: nat
  db_bridge :: nat
  cache :: "path \<rightharpoonup> string option"

record ConfigBuilder =
  cb_database :: nat

subsection \<open>The calls the orchestration makes\<close>

datatype event =
    CallNewBridge bridge_kind string
  | CallMakeIsomorphicOptions
  | CallEnsureDirSync path
  | CallNewLevelStore string bool
  | CallCreateDatabase
  | CallNext
  | CallIsProjectTs "string option"
  | CallClearCache
  | CallMkdirp path
  | CallStoreClose
  | CallResetGeneratedFolder path bool bool
  | CallStoreOpen
  | CallCompileSchema "bool option" "bool option" string
  | CallAddOutputPath string
  | CallBuildSchema string
  | CallIndexContent
  | CallGetASTSchema
  | CallGenTypes
  | CallGenClient
  | CallViteBuild
  | CallLoggerInfo string

text \<open>The context object \<^verbatim>\<open>ctx\<close> that the commands pass along and assign to.\<close>

record ctx =
  ctx_rootPath :: string
  ctx_usingTs :: bool
  ctx_bridge :: "nat option"
  ctx_database :: "nat option"
  ctx_builder :: "ConfigBuilder option"
  ctx_schema :: "compiled_schema option"
  ctx_apiUrl :: "string option"

record world =
  cmd_ctx :: ctx
  disk :: filesystem
  bridges :: "bridge list"
  stores :: "level_store list"
  databases :: "database list"
  trace :: "event list"

type_synonym 'a proc = "world \<Rightarrow> (error + 'a) \<times> world"

definition ret :: "'a \<Rightarrow> 'a proc" where
  "ret x w = (Inr x, w)"

definition throw :: "error \<Rightarrow> 'a proc" where
  "throw e w = (Inl e, w)"

text \<open>\<open>await m k\<close>: run \<open>m\<close>; where it throws, the rest \<open>k\<close> does not run.\<close>

definition await :: "'a proc \<Rightarrow> ('a \<Rightarrow> 'b proc) \<Rightarrow> 'b proc" where
  "await m k w = (case m w of (Inl e, w') \<Rightarrow> (Inl e, w') | (Inr x, w') \<Rightarrow> k x w')"

definition emit :: "event \<Rightarrow> unit proc" where
  "emit ev w = (Inr (), w\<lparr>trace := trace w @ [ev]\<rparr>)"

text \<open>An operation on the disk alone: it leaves the disk it produced, also when it throws.\<close>

definition on_disk :: "(filesystem \<Rightarrow> (error + 'a) \<times> filesystem) \<Rightarrow> 'a proc" where
  "on_disk f w = (case f (disk w) of (r, d) \<Rightarrow> (r, w\<lparr>disk := d\<rparr>))"

definition deref :: "'a list \<Rightarrow> nat \<Rightarrow> error + 'a" where
  "deref xs r =
     (if r < length xs then Inr (xs ! r) else Inl (TypeError ''Cannot read properties of undefined''))"

definition get_database :: "nat \<Rightarrow> database proc" where
  "get_database r w = (deref (databases w) r, w)"

definition get_store :: "nat \<Rightarrow> level_store proc" where
  "get_store r w = (deref (stores w) r, w)"

definition get_bridge :: "nat \<Rightarrow> bridge proc" where
  "get_bridge r w = (deref (bridges w) r, w)"

definition set_database :: "nat \<Rightarrow> database \<Rightarrow> unit proc" where
  "set_database r v w = (Inr (), w\<lparr>databases := (databases w)[r := v]\<rparr>)"

definition set_store :: "nat \<Rightarrow> level_store \<Rightarrow> unit proc" where
  "set_store r v w = (Inr (), w\<lparr>stores := (stores w)[r := v]\<rparr>)"

definition set_bridge :: "nat \<Rightarrow> bridge \<Rightarrow> unit proc" where
  "set_bridge r v w = (Inr (), w\<lparr>bridges := (bridges w)[r := v]\<rparr>)"

definition new_bridge :: "bridge \<Rightarrow> nat proc" where
  "new_bridge b w = (Inr (length (bridges w)), w\<lparr>bridges := bridges w @ [b]\<rparr>)"

definition new_store :: "level_store \<Rightarrow> nat proc" where
  "new_store s w = (Inr (length (stores w)), w\<lparr>stores := stores w @ [s]\<rparr>)"

definition new_database :: "database \<Rightarrow> nat proc" where
  "new_database d w = (Inr (length (databases w)), w\<lparr>databases := databases w @ [d]\<rparr>)"

subsection \<open>The collaborators outside this file\<close>

text \<open>
  The functions imported from \<^verbatim>\<open>../cmds/compile\<close>, \<^verbatim>\<open>../cmds/query-gen\<close>, \<^verbatim>\<open>./git\<close>,
  \<^verbatim>\<open>./attachPath\<close>, \<^verbatim>\<open>@tinacms/graphql\<close> and \<^verbatim>\<open>@tinacms/app\<close> are parameters: each
  may throw, and each may change the disk as it likes (also when it throws).
  \<^verbatim>\<open>isProjectTs\<close>, \<^verbatim>\<open>makeIsomorphicOptions\<close> and \<^verbatim>\<open>getASTSchema\<close> only read; \<^verbatim>\<open>buildSchema\<close>
  and \<^verbatim>\<open>getASTSchema\<close> see the Store and the Bridge of the Database they are given and
  are taken to leave both objects as they are.
\<close>

record env =
  ext_isProjectTs :: "string option \<Rightarrow> filesystem \<Rightarrow> error + bool"
  ext_makeIsomorphicOptions :: "bridge \<Rightarrow> filesystem \<Rightarrow> error + iso_options"
  ext_resetGeneratedFolder :: "path \<Rightarrow> bool \<Rightarrow> bool \<Rightarrow> filesystem \<Rightarrow> (error + unit) \<times> filesystem"
  ext_compileSchema ::
    "bool option \<Rightarrow> bool option \<Rightarrow> string \<Rightarrow> filesystem \<Rightarrow> (error + compiled_schema) \<times> filesystem"
  ext_buildSchema ::
    "string \<Rightarrow> level_store \<Rightarrow> bridge \<Rightarrow> string list \<Rightarrow> filesystem
       \<Rightarrow> (error + DocumentNode \<times> TinaSchema) \<times> filesystem"
  ext_getASTSchema :: "level_store \<Rightarrow> bridge \<Rightarrow> filesystem \<Rightarrow> error + string"
  ext_genTypes ::
    "string \<Rightarrow> bool \<Rightarrow> bool option \<Rightarrow> bool option \<Rightarrow> filesystem \<Rightarrow> (error + unit) \<times> filesystem"
  ext_genClient ::
    "compiled_schema \<Rightarrow> bool \<Rightarrow> bool \<Rightarrow> nat option \<Rightarrow> filesystem \<Rightarrow> (error + string) \<times> filesystem"
  ext_viteBuild ::
    "bool \<Rightarrow> string \<Rightarrow> build_config \<Rightarrow> string \<Rightarrow> filesystem \<Rightarrow> (error + unit) \<times> filesystem"
  ext_bridge_has_addOutputPath :: "bridge_kind \<Rightarrow> bool"
  ext_store_io_ok :: "bool \<Rightarrow> level_store \<Rightarrow> bool"
  ext_index_writes :: "DocumentNode \<times> TinaSchema \<Rightarrow> filesystem \<Rightarrow> (string \<times> string option) list"
  ext_index_records :: "DocumentNode \<times> TinaSchema \<Rightarrow> filesystem \<Rightarrow> (path \<rightharpoonup> string)"

definition isProjectTs :: "env \<Rightarrow> string option \<Rightarrow> bool proc" where
  "isProjectTs E rootPath =
     await (emit (CallIsProjectTs rootPath)) (\<lambda>_ w. (ext_isProjectTs E rootPath (disk w), w))"

definition makeIsomorphicOptions :: "env \<Rightarrow> nat \<Rightarrow> iso_options proc" where
  "makeIsomorphicOptions E fsBridge =
     await (emit CallMakeIsomorphicOptions) (\<lambda>_.
     await (get_bridge fsBridge) (\<lambda>b w. (ext_makeIsomorphicOptions E b (disk w), w)))"

definition resetGeneratedFolder :: "env \<Rightarrow> path \<Rightarrow> bool \<Rightarrow> bool \<Rightarrow> unit proc" where
  "resetGeneratedFolder E tinaGeneratedPath usingTs isBuild =
     await (emit (CallResetGeneratedFolder tinaGeneratedPath usingTs isBuild)) (\<lambda>_.
     on_disk (ext_resetGeneratedFolder E tinaGeneratedPath usingTs isBuild))"

definition compileSchema :: "env \<Rightarrow> bool option \<Rightarrow> bool option \<Rightarrow> string \<Rightarrow> compiled_schema proc" where
  "compileSchema E verbose dev rootPath =
     await (emit (CallCompileSchema verbose dev rootPath)) (\<lambda>_.
     on_disk (ext_compileSchema E verbose dev rootPath))"

definition buildSchema :: "env \<Rightarrow> string \<Rightarrow> nat \<Rightarrow> string list \<Rightarrow> (DocumentNode \<times> TinaSchema) proc" where
  "buildSchema E rootPath database flags =
     await (emit (CallBuildSchema rootPath)) (\<lambda>_.
     await (get_database database) (\<lambda>db.
     await (get_store (db_store db)) (\<lambda>s.
     await (get_bridge (db_bridge db)) (\<lambda>b.
     on_disk (ext_buildSchema E rootPath s b flags)))))"

definition getASTSchema :: "env \<Rightarrow> nat \<Rightarrow> string proc" where
  "getASTSchema E database =
     await (emit CallGetASTSchema) (\<lambda>_.
     await (get_database database) (\<lambda>db.
     await (get_store (db_store db)) (\<lambda>s.
     await (get_bridge (db_bridge db)) (\<lambda>b w. (ext_getASTSchema E s b (disk w), w)))))"

definition genTypes :: "env \<Rightarrow> string \<Rightarrow> bool \<Rightarrow> bool option \<Rightarrow> bool option \<Rightarrow> unit proc" where
  "genTypes E astSchema usingTs noSDK verbose =
     await (emit CallGenTypes) (\<lambda>_. on_disk (ext_genTypes E astSchema usingTs noSDK verbose))"

definition genClient :: "env \<Rightarrow> compiled_schema \<Rightarrow> bool \<Rightarrow> bool \<Rightarrow> nat option \<Rightarrow> string proc" where
  "genClient E tinaSchema usingTs local port =
     await (emit CallGenClient) (\<lambda>_. on_disk (ext_genClient E tinaSchema usingTs local port))"

definition viteBuild :: "env \<Rightarrow> bool \<Rightarrow> string \<Rightarrow> build_config \<Rightarrow> string \<Rightarrow> unit proc" where
  "viteBuild E local rootPath b apiUrl =
     await (emit CallViteBuild) (\<lambda>_. on_disk (ext_viteBuild E local rootPath b apiUrl))"

definition fs_mkdirp :: "path \<Rightarrow> unit proc" where
  "fs_mkdirp p =
     await (emit (CallMkdirp p)) (\<lambda>_.
     on_disk (\<lambda>d. case mkdirs p d of Inl e \<Rightarrow> (Inl e, d) | Inr d' \<Rightarrow> (Inr (), d')))"

definition fs_ensureDirSync :: "path \<Rightarrow> unit proc" where
  "fs_ensureDirSync p =
     await (emit (CallEnsureDirSync p)) (\<lambda>_.
     on_disk (\<lambda>d. case mkdirs p d of Inl e \<Rightarrow> (Inl e, d) | Inr d' \<Rightarrow> (Inr (), d')))"

definition next_cb :: "unit proc" where
  "next_cb = emit CallNext"

subsection \<open>Database, Store and Bridge operations\<close>

text \<open>
  Modelled from the spec: the constructors \<^verbatim>\<open>new FilesystemBridge\<close>,
  \<^verbatim>\<open>new AuditFileSystemBridge\<close>, \<^verbatim>\<open>new IsomorphicBridge\<close>, \<^verbatim>\<open>new LevelStore\<close> and
  \<^verbatim>\<open>createDatabase\<close> of \<^verbatim>\<open>@tinacms/datalayer\<close> and \<^verbatim>\<open>@tinacms/graphql\<close> are not in the
  sources at hand. Each allocates an object holding its arguments; a Database
  "owns one Bridge and one Store" and starts with an empty cache.
\<close>

definition new_Bridge :: "bridge_kind \<Rightarrow> string \<Rightarrow> iso_options option \<Rightarrow> nat proc" where
  "new_Bridge k rootPath opts =
     await (emit (CallNewBridge k rootPath)) (\<lambda>_.
     new_bridge \<lparr>kind = k, bridge_rootPath = rootPath, isomorphicOptions = opts, outputPath = None\<rparr>)"

definition new_LevelStore :: "string \<Rightarrow> bool \<Rightarrow> nat proc" where
  "new_LevelStore rootPath useMemory =
     await (emit (CallNewLevelStore rootPath useMemory)) (\<lambda>_.
     new_store \<lparr>store_rootPath = rootPath, useMemoryStore = useMemory, opened = True,
                records = Map.empty\<rparr>)"

definition createDatabase :: "nat \<Rightarrow> nat \<Rightarrow> nat proc" where
  "createDatabase store bridge =
     await (emit CallCreateDatabase) (\<lambda>_.
     new_database \<lparr>db_store = store, db_bridge = bridge, cache = Map.empty\<rparr>)"

text \<open>
  Modelled from the spec: \<^verbatim>\<open>Database.clearCache\<close> is not in the sources at hand.
  "\<^verbatim>\<open>clearCache()\<close>: drops all CacheEntry state; does not touch the Store."
\<close>

definition clearCache :: "nat \<Rightarrow> unit proc" where
  "clearCache database =
     await (emit CallClearCache) (\<lambda>_.
     await (get_database database) (\<lambda>db.
     set_database database (db\<lparr>cache := Map.empty\<rparr>)))"

text \<open>
  Modelled from the spec: \<^verbatim>\<open>Store.close\<close> and \<^verbatim>\<open>Store.open\<close> are not in the sources
  at hand. "\<^verbatim>\<open>open() -> fails(IOError)\<close>; \<^verbatim>\<open>close() -> fails(IOError)\<close>": each either
  fails with \<open>IOError\<close> or moves the Store to the closed or open state.
\<close>

definition store_close :: "env \<Rightarrow> nat \<Rightarrow> unit proc" where
  "store_close E database =
     await (emit CallStoreClose) (\<lambda>_.
     await (get_database database) (\<lambda>db.
     await (get_store (db_store db)) (\<lambda>s.
     if ext_store_io_ok E False s then set_store (db_store db) (s\<lparr>opened := False\<rparr>)
     else throw IOError)))"

definition store_open :: "env \<Rightarrow> nat \<Rightarrow> unit proc" where
  "store_open E database =
     await (emit CallStoreOpen) (\<lambda>_.
     await (get_database database) (\<lambda>db.
     await (get_store (db_store db)) (\<lambda>s.
     if ext_store_io_ok E True s then set_store (db_store db) (s\<lparr>opened := True\<rparr>)
     else throw IOError)))"

text \<open>
  \<^verbatim>\<open>this.database.bridge.addOutputPath(p)\<close>, guarded in the caller by the presence of the
  method on the bridge.
\<close>

definition addOutputPath :: "nat \<Rightarrow> string \<Rightarrow> unit proc" where
  "addOutputPath bridge p =
     await (emit (CallAddOutputPath p)) (\<lambda>_.
     await (get_bridge bridge) (\<lambda>b.
     set_bridge bridge (b\<lparr>outputPath := Some p\<rparr>)))"

text \<open>
  Modelled from the spec: \<^verbatim>\<open>Bridge.put\<close> and \<^verbatim>\<open>Bridge.delete\<close> are not in the sources at
  hand. "Direct: reads/writes the source in place. Audit: wraps a Direct bridge;
  \<^verbatim>\<open>put\<close>/\<^verbatim>\<open>delete\<close> fail with \<^verbatim>\<open>WriteDenied\<close> unconditionally."
\<close>

definition bridge_put :: "bridge \<Rightarrow> string \<Rightarrow> string \<Rightarrow> filesystem \<Rightarrow> error + filesystem" where
  "bridge_put b filepath content d =
     (case kind b of
        AuditFileSystemBridge \<Rightarrow> Inl WriteDenied
      | _ \<Rightarrow> Inr (d\<lparr>files := (files d)(path_join (bridge_rootPath b) [filepath] \<mapsto> content)\<rparr>))"

definition bridge_delete :: "bridge \<Rightarrow> string \<Rightarrow> filesystem \<Rightarrow> error + filesystem" where
  "bridge_delete b filepath d =
     (case kind b of
        AuditFileSystemBridge \<Rightarrow> Inl WriteDenied
      | _ \<Rightarrow>
         (if files d (path_join (bridge_rootPath b) [filepath]) = None then Inl NotFound
          else Inr (d\<lparr>files := (files d)(path_join (bridge_rootPath b) [filepath] := None)\<rparr>)))"

text \<open>A write is \<open>(filepath, Some content)\<close> for a put and \<open>(filepath, None)\<close> for a delete.\<close>

fun bridge_writes :: "bridge \<Rightarrow> (string \<times> string option) list \<Rightarrow> filesystem \<Rightarrow> error + filesystem" where
  "bridge_writes b [] d = Inr d"
| "bridge_writes b ((filepath, Some content) # ops) d =
     (case bridge_put b filepath content d of Inl e \<Rightarrow> Inl e | Inr d' \<Rightarrow> bridge_writes b ops d')"
| "bridge_writes b ((filepath, None) # ops) d =
     (case bridge_delete b filepath d of Inl e \<Rightarrow> Inl e | Inr d' \<Rightarrow> bridge_writes b ops d')"

text \<open>
  Modelled from the spec: \<^verbatim>\<open>Database.indexContent\<close> is not in the sources at hand.
  It is a full reindex through the Database's Bridge and Store: "callers must not query or
  index between a \<^verbatim>\<open>close()\<close> and the matching \<^verbatim>\<open>open()\<close>"; "any attempted write during
  indexing surfaces as a \<^verbatim>\<open>WriteDenied\<close> error that aborts the build"; on success the
  Store holds the Records derived from the content. Which writes the pass attempts and
  which Records it derives are parameters.
\<close>

definition indexContent :: "env \<Rightarrow> nat \<Rightarrow> DocumentNode \<times> TinaSchema \<Rightarrow> unit proc" where
  "indexContent E database schemas =
     await (emit CallIndexContent) (\<lambda>_.
     await (get_database database) (\<lambda>db.
     await (get_store (db_store db)) (\<lambda>s.
     await (get_bridge (db_bridge db)) (\<lambda>b.
     if \<not> opened s then throw IOError
     else
       await (on_disk (\<lambda>d. case bridge_writes b (ext_index_writes E schemas d) d of
                              Inl e \<Rightarrow> (Inl e, d) | Inr d' \<Rightarrow> (Inr (), d'))) (\<lambda>_ w.
       set_store (db_store db) (s\<lparr>records := ext_index_records E schemas (disk w)\<rparr>) w)))))"

subsection \<open>Options\<close>

record BuildOptions =
  bo_local :: bool
  bo_dev :: "bool option"
  bo_verbose :: "bool option"
  bo_rootPath :: "string option"

record BuildSetupOptions =
  isomorphicGitBridge :: "bool option"
  experimentalData :: "bool option"

text \<open>
  The options object of the commands. A key of JavaScript's spread \<^verbatim>\<open>...options\<close>
  overrides an earlier key only where the object has it: \<open>co_rootPath\<close> is \<open>None\<close> where
  the object has no \<^verbatim>\<open>rootPath\<close> key and \<open>Some v\<close> where it has one of value \<open>v\<close>.
\<close>

record CmdOptions =
  co_local :: bool
  co_dev :: "bool option"
  co_verbose :: "bool option"
  co_rootPath :: "string option option"
  co_noSDK :: "bool option"
  co_port :: "nat option"

record BuildResult =
  schema :: compiled_schema
  graphQLSchema :: DocumentNode
  tinaSchema :: TinaSchema

definition get_ctx :: "ctx proc" where
  "get_ctx w = (Inr (cmd_ctx w), w)"

definition set_ctx :: "(ctx \<Rightarrow> ctx) \<Rightarrow> unit proc" where
  "set_ctx f w = (Inr (), w\<lparr>cmd_ctx := f (cmd_ctx w)\<rparr>)"

definition defined :: "'a option \<Rightarrow> 'a proc" where
  "defined v = (case v of None \<Rightarrow> throw (TypeError ''Cannot read properties of undefined'')
                | Some x \<Rightarrow> ret x)"

subsection \<open>buildSetup and the three setup commands\<close>

definition generatedPath :: "string \<Rightarrow> path" where
  "generatedPath rootPath = path_join rootPath [''.tina'', ''__generated__'']"

definition buildSetup :: "env \<Rightarrow> bool option \<Rightarrow> string \<Rightarrow> bool \<Rightarrow> (nat \<times> nat \<times> nat) proc" where
  "buildSetup E isomorphicGit rootPath useMemory =
     await (new_Bridge FilesystemBridge rootPath None) (\<lambda>fsBridge.
     await (if isomorphicGit = Some True
            then await (makeIsomorphicOptions E fsBridge) (\<lambda>opts. ret (Some opts))
            else ret None) (\<lambda>isomorphicOpts.
     await (if isomorphicGit = Some True
            then new_Bridge IsomorphicBridge rootPath isomorphicOpts
            else ret fsBridge) (\<lambda>bridge.
     await (fs_ensureDirSync (generatedPath rootPath)) (\<lambda>_.
     await (new_LevelStore rootPath useMemory) (\<lambda>store.
     await (createDatabase store bridge) (\<lambda>database.
     ret (database, bridge, store)))))))"

definition attach :: "nat \<Rightarrow> nat \<Rightarrow> unit proc" where
  "attach bridge database =
     set_ctx (\<lambda>c. c\<lparr>ctx_bridge := Some bridge, ctx_database := Some database,
                    ctx_builder := Some \<lparr>cb_database = database\<rparr>\<rparr>)"

definition buildSetupCmdBuild :: "env \<Rightarrow> BuildSetupOptions \<Rightarrow> unit proc" where
  "buildSetupCmdBuild E opts =
     await get_ctx (\<lambda>c.
     await (buildSetup E (isomorphicGitBridge opts) (ctx_rootPath c) True) (\<lambda>(database, bridge, store).
     await (attach bridge database) (\<lambda>_.
     next_cb)))"

definition buildSetupCmdServerStart :: "env \<Rightarrow> BuildSetupOptions \<Rightarrow> unit proc" where
  "buildSetupCmdServerStart E opts =
     await get_ctx (\<lambda>c.
     await (buildSetup E (isomorphicGitBridge opts) (ctx_rootPath c) False) (\<lambda>(database, bridge, store).
     await (attach bridge database) (\<lambda>_.
     next_cb)))"

definition buildSetupCmdAudit :: "env \<Rightarrow> bool \<Rightarrow> unit proc" where
  "buildSetupCmdAudit E clean =
     await get_ctx (\<lambda>c.
     await (if clean then new_Bridge FilesystemBridge (ctx_rootPath c) None
            else new_Bridge AuditFileSystemBridge (ctx_rootPath c) None) (\<lambda>bridge.
     await (fs_ensureDirSync (generatedPath (ctx_rootPath c))) (\<lambda>_.
     await (new_LevelStore (ctx_rootPath c) False) (\<lambda>store.
     await (createDatabase store bridge) (\<lambda>database.
     await (attach bridge database) (\<lambda>_.
     next_cb))))))"

subsection \<open>ConfigBuilder\<close>

text \<open>
  The guarded call
  \<^verbatim>\<open>if (this.database.bridge.addOutputPath && compiledSchema.config?.remote?.rootPath)\<close>.
\<close>

definition addOutputPath_if_configured :: "env \<Rightarrow> nat \<Rightarrow> compiled_schema \<Rightarrow> unit proc" where
  "addOutputPath_if_configured E database compiledSchema =
     await (get_database database) (\<lambda>db.
     await (get_bridge (db_bridge db)) (\<lambda>b.
     if ext_bridge_has_addOutputPath E (kind b)
     then (case truthy (config_remote_rootPath compiledSchema) of
             None \<Rightarrow> ret ()
           | Some p \<Rightarrow> addOutputPath (db_bridge db) p)
     else ret ()))"

definition build :: "env \<Rightarrow> ConfigBuilder \<Rightarrow> BuildOptions \<Rightarrow> BuildResult proc" where
  "build E this opts =
     await (isProjectTs E (bo_rootPath opts)) (\<lambda>usingTs.
     case truthy (bo_rootPath opts) of
       None \<Rightarrow> throw (Error ''Root path has not been attached'')
     | Some rootPath \<Rightarrow>
         await (clearCache (cb_database this)) (\<lambda>_.
         await (fs_mkdirp (generatedPath rootPath)) (\<lambda>_.
         await (store_close E (cb_database this)) (\<lambda>_.
         await (resetGeneratedFolder E (generatedPath rootPath) usingTs (\<not> bo_local opts)) (\<lambda>_.
         await (store_open E (cb_database this)) (\<lambda>_.
         await (compileSchema E (bo_verbose opts) (bo_dev opts) rootPath) (\<lambda>compiledSchema.
         await (addOutputPath_if_configured E (cb_database this) compiledSchema) (\<lambda>_.
         await (buildSchema E rootPath (cb_database this)
                  [''experimentalData'', ''isomorphicGitBridge'']) (\<lambda>(gql, tina).
         ret \<lparr>schema = compiledSchema, graphQLSchema = gql, tinaSchema = tina\<rparr>)))))))))"

definition genTypedClient ::
  "env \<Rightarrow> ConfigBuilder \<Rightarrow> bool \<Rightarrow> compiled_schema \<Rightarrow> bool option \<Rightarrow> bool option \<Rightarrow> bool
     \<Rightarrow> nat option \<Rightarrow> string proc" where
  "genTypedClient E this usingTs compiledSchema noSDK verbose local port =
     await (getASTSchema E (cb_database this)) (\<lambda>astSchema.
     await (genTypes E astSchema usingTs noSDK verbose) (\<lambda>_.
     genClient E compiledSchema usingTs local port))"

subsection \<open>buildAdmin and the two build commands\<close>

text \<open>
  \<^verbatim>\<open>spin({ waitFor, text })\<close> of \<^verbatim>\<open>../utils/spinner\<close> shows a spinner while it awaits
  \<^verbatim>\<open>waitFor()\<close>: it is the call of \<^verbatim>\<open>waitFor\<close>. A call of \<^verbatim>\<open>logger.info\<close> is logged with
  the text given to \<^verbatim>\<open>logText\<close>.
\<close>

definition spin :: "unit proc \<Rightarrow> unit proc" where
  "spin waitFor = waitFor"

definition buildAdmin :: "env \<Rightarrow> compiled_schema \<Rightarrow> bool \<Rightarrow> string \<Rightarrow> string \<Rightarrow> unit proc" where
  "buildAdmin E sch local rootPath apiUrl =
     (case config_build sch of
        None \<Rightarrow> ret ()
      | Some b \<Rightarrow>
         (if local
          then await (emit (CallLoggerInfo ''Starting Tina asset server'')) (\<lambda>_.
               viteBuild E local rootPath b apiUrl)
          else await (spin (viteBuild E local rootPath b apiUrl)) (\<lambda>_.
               emit (CallLoggerInfo (CHR 0x0A # ''Done building static site'')))))"

text \<open>\<^verbatim>\<open>{ rootPath: ctx.rootPath, ...options }\<close>\<close>

definition build_args :: "ctx \<Rightarrow> CmdOptions \<Rightarrow> BuildOptions" where
  "build_args c options =
     \<lparr>bo_local = co_local options, bo_dev = co_dev options, bo_verbose = co_verbose options,
      bo_rootPath = (case co_rootPath options of None \<Rightarrow> Some (ctx_rootPath c) | Some r \<Rightarrow> r)\<rparr>"

definition buildCmdBuild :: "env \<Rightarrow> CmdOptions \<Rightarrow> unit proc" where
  "buildCmdBuild E options =
     await get_ctx (\<lambda>c.
     await (defined (ctx_builder c)) (\<lambda>builder.
     await (build E builder (build_args c options)) (\<lambda>res.
     await (set_ctx (\<lambda>c. c\<lparr>ctx_schema := Some (schema res)\<rparr>)) (\<lambda>_.
     await (genTypedClient E builder (ctx_usingTs c) (schema res) (co_noSDK options)
              (co_verbose options) (co_local options) (co_port options)) (\<lambda>apiUrl.
     await (set_ctx (\<lambda>c. c\<lparr>ctx_apiUrl := Some apiUrl\<rparr>)) (\<lambda>_.
     await (buildAdmin E (schema res) (co_local options) (ctx_rootPath c) apiUrl) (\<lambda>_.
     next_cb)))))))"

definition auditCmdBuild :: "env \<Rightarrow> CmdOptions \<Rightarrow> unit proc" where
  "auditCmdBuild E options =
     await get_ctx (\<lambda>c.
     await (defined (ctx_builder c)) (\<lambda>builder.
     await (build E builder ((build_args c options)\<lparr>bo_verbose := Some True\<rparr>)) (\<lambda>res.
     await (spin (await (defined (ctx_database c)) (\<lambda>database.
                  indexContent E database (graphQLSchema res, tinaSchema res)))) (\<lambda>_.
     next_cb))))"

subsection \<open>Observing a run\<close>

text \<open>The calls a run adds to the log, the result it returns, the world it leaves.\<close>

definition calls_of :: "'a proc \<Rightarrow> world \<Rightarrow> event list" where
  "calls_of m w = drop (length (trace w)) (trace (snd (m w)))"

definition result_of :: "'a proc \<Rightarrow> world \<Rightarrow> error + 'a" where
  "result_of m w = fst (m w)"

definition world_after :: "'a proc \<Rightarrow> world \<Rightarrow> world" where
  "world_after m w = snd (m w)"

text \<open>\<open>only_after P Q evs\<close>: no call satisfying \<open>Q\<close> comes before the first call satisfying \<open>P\<close>.\<close>

fun only_after :: "(event \<Rightarrow> bool) \<Rightarrow> (event \<Rightarrow> bool) \<Rightarrow> event list \<Rightarrow> bool" where
  "only_after P Q [] = True"
| "only_after P Q (e # es) = (if P e then True else \<not> Q e \<and> only_after P Q es)"

fun is_compileSchema :: "event \<Rightarrow> bool" where
  "is_compileSchema (CallCompileSchema v d r) = True"
| "is_compileSchema _ = False"


text \<open>The objects the context refers to.\<close>

definition ctx_database_obj :: "world \<Rightarrow> database option" where
  "ctx_database_obj w =
     (case ctx_database (cmd_ctx w) of None \<Rightarrow> None
      | Some r \<Rightarrow> if r < length (databases w) then Some (databases w ! r) else None)"

definition database_store :: "world \<Rightarrow> level_store option" where
  "database_store w =
     (case ctx_database_obj w of None \<Rightarrow> None
      | Some db \<Rightarrow> if db_store db < length (stores w) then Some (stores w ! db_store db) else None)"


text \<open>
  The command line runs a setup command and then, when that has called \<^verbatim>\<open>next()\<close>, the
  build command on the same context.
\<close>

definition build_run :: "env \<Rightarrow> BuildSetupOptions \<Rightarrow> CmdOptions \<Rightarrow> unit proc" where
  "build_run E opts options = await (buildSetupCmdBuild E opts) (\<lambda>_. buildCmdBuild E options)"

definition audit_run :: "env \<Rightarrow> bool \<Rightarrow> CmdOptions \<Rightarrow> unit proc" where
  "audit_run E clean options = await (buildSetupCmdAudit E clean) (\<lambda>_. auditCmdBuild E options)"

text \<open>The calls of \<^verbatim>\<open>ConfigBuilder.build\<close> up to and including the schema compilation.\<close>

definition build_head :: "BuildOptions \<Rightarrow> string \<Rightarrow> bool \<Rightarrow> event list" where
  "build_head opts rootPath usingTs =
     [CallIsProjectTs (bo_rootPath opts), CallClearCache, CallMkdirp (generatedPath rootPath),
      CallStoreClose,
      CallResetGeneratedFolder (generatedPath rootPath) usingTs (\<not> bo_local opts),
      CallStoreOpen, CallCompileSchema (bo_verbose opts) (bo_dev opts) rootPath]"

text \<open>The calls of \<^verbatim>\<open>genTypedClient\<close> and of \<^verbatim>\<open>buildAdmin\<close> when they return.\<close>

definition client_calls :: "event list" where
  "client_calls = [CallGetASTSchema, CallGenTypes, CallGenClient]"

definition admin_calls :: "compiled_schema \<Rightarrow> bool \<Rightarrow> event list" where
  "admin_calls sch local =
     (case config_build sch of
        None \<Rightarrow> []
      | Some b \<Rightarrow>
          if local then [CallLoggerInfo ''Starting Tina asset server'', CallViteBuild]
          else [CallViteBuild, CallLoggerInfo (CHR 0x0A # ''Done building static site'')])"

text \<open>The calls of a build that come after the schema compilation.\<close>

fun after_compile :: "event \<Rightarrow> bool" where
  "after_compile (CallAddOutputPath p) = True"
| "after_compile (CallBuildSchema r) = True"
| "after_compile CallIndexContent = True"
| "after_compile CallGetASTSchema = True"
| "after_compile CallGenTypes = True"
| "after_compile CallGenClient = True"
| "after_compile CallViteBuild = True"
| "after_compile (CallLoggerInfo t) = True"
| "after_compile CallNext = True"
| "after_compile _ = False"

text \<open>The calls of \<^verbatim>\<open>ConfigBuilder.build\<close> that work on the Store, the generated folder or
  the schema.\<close>

fun build_step :: "event \<Rightarrow> bool" where
  "build_step CallStoreClose = True"
| "build_step (CallResetGeneratedFolder g u b) = True"
| "build_step CallStoreOpen = True"
| "build_step (CallCompileSchema v d r) = True"
| "build_step (CallAddOutputPath p) = True"
| "build_step (CallBuildSchema r) = True"
| "build_step _ = False"

text \<open>A call of \<^verbatim>\<open>new LevelStore\<close>, if \<open>e\<close> is one, has the given root path and in-memory flag.\<close>

fun new_store_is :: "string \<Rightarrow> bool \<Rightarrow> event \<Rightarrow> bool" where
  "new_store_is root mem (CallNewLevelStore r m) = (r = root \<and> m = mem)"
| "new_store_is root mem _ = True"

text \<open>What the steps of a build leave alone: which Store and Bridge each Database is wired
  to, the kind and root of each Bridge, the root, variant and Records of each Store.\<close>

definition wiring ::
  "world \<Rightarrow> (nat \<times> nat) list \<times> (bridge_kind \<times> string) list
     \<times> (string \<times> bool \<times> (path \<rightharpoonup> string)) list" where
  "wiring w =
     (map (\<lambda>d. (db_store d, db_bridge d)) (databases w),
      map (\<lambda>b. (kind b, bridge_rootPath b)) (bridges w),
      map (\<lambda>s. (store_rootPath s, useMemoryStore s, records s)) (stores w))"

definition heap :: "world \<Rightarrow> ctx \<times> bridge list \<times> level_store list \<times> database list" where
  "heap w = (cmd_ctx w, bridges w, stores w, databases w)"


text \<open>
  The result of the call of \<^verbatim>\<open>compileSchema\<close> in a run of \<^verbatim>\<open>ConfigBuilder.build\<close> that starts
  on the disk \<open>d0\<close>: the call is made on the disk that \<^verbatim>\<open>mkdirp\<close> and \<^verbatim>\<open>resetGeneratedFolder\<close>
  leave. It is \<open>None\<close> where the root path is absent or one of \<^verbatim>\<open>isProjectTs\<close>, \<^verbatim>\<open>mkdirp\<close> and
  \<^verbatim>\<open>resetGeneratedFolder\<close> throws, so that the run does not get to the call.
\<close>

definition compile_result :: "env \<Rightarrow> BuildOptions \<Rightarrow> filesystem \<Rightarrow> (error + compiled_schema) option" where
  "compile_result E opts d0 =
     (case truthy (bo_rootPath opts) of
        None \<Rightarrow> None
      | Some rootPath \<Rightarrow>
         (case ext_isProjectTs E (bo_rootPath opts) d0 of
            Inl e \<Rightarrow> None
          | Inr usingTs \<Rightarrow>
             (case mkdirs (generatedPath rootPath) d0 of
                Inl e \<Rightarrow> None
              | Inr d1 \<Rightarrow>
                 (case ext_resetGeneratedFolder E (generatedPath rootPath) usingTs (\<not> bo_local opts) d1 of
                    (Inl e, d2) \<Rightarrow> None
                  | (Inr u, d2) \<Rightarrow>
                      Some (fst (ext_compileSchema E (bo_verbose opts) (bo_dev opts) rootPath d2))))))"

text \<open>
  The call of \<^verbatim>\<open>addOutputPath\<close> that the guard of \<^verbatim>\<open>ConfigBuilder.build\<close> lets through: one
  call, with the remote root path, where the bridge has the method and the compiled schema
  configures a remote root path that is not empty; none otherwise.
\<close>

definition output_calls :: "env \<Rightarrow> bridge_kind \<Rightarrow> compiled_schema \<Rightarrow> event list" where
  "output_calls E k compiledSchema =
     (if ext_bridge_has_addOutputPath E k
      then (case truthy (config_remote_rootPath compiledSchema) of
              None \<Rightarrow> []
            | Some p \<Rightarrow> [CallAddOutputPath p])
      else [])"

text \<open>
  The calls of a run of \<^verbatim>\<open>ConfigBuilder.build\<close> that starts on the disk \<open>d0\<close>, on a Database
  whose Bridge is of kind \<open>k\<close>, in the order in which the function makes them; a run that
  throws stops somewhere in this list.
\<close>

definition build_calls :: "env \<Rightarrow> BuildOptions \<Rightarrow> bridge_kind \<Rightarrow> filesystem \<Rightarrow> event list" where
  "build_calls E opts k d0 =
     (case truthy (bo_rootPath opts) of
        None \<Rightarrow> [CallIsProjectTs (bo_rootPath opts)]
      | Some rootPath \<Rightarrow>
         (case ext_isProjectTs E (bo_rootPath opts) d0 of
            Inl e \<Rightarrow> [CallIsProjectTs (bo_rootPath opts)]
          | Inr usingTs \<Rightarrow>
              build_head opts rootPath usingTs
              @ (case compile_result E opts d0 of
                   Some (Inr compiledSchema) \<Rightarrow>
                     output_calls E k compiledSchema @ [CallBuildSchema rootPath]
                 | _ \<Rightarrow> [])))"

text \<open>The kind of \<^verbatim>\<open>this.database.bridge\<close>.\<close>

definition builder_bridge_kind :: "world \<Rightarrow> ConfigBuilder \<Rightarrow> bridge_kind" where
  "builder_bridge_kind w this = kind (bridges w ! db_bridge (databases w ! cb_database this))"

text \<open>
  The content source: the files that are not under a generated-artifacts directory
  \<^verbatim>\<open><root>/.tina/__generated__\<close>.
\<close>

fun in_generated :: "path \<Rightarrow> bool" where
  "in_generated (root # a # b # rest) = (a = ''.tina'' \<and> b = ''__generated__'')"
| "in_generated _ = False"

definition content :: "filesystem \<Rightarrow> (path \<rightharpoonup> string)" where
  "content d = (\<lambda>p. if in_generated p then None else files d p)"


subsection \<open>A sample project\<close>

text \<open>
  Collaborators that succeed and leave the disk as it is, an empty disk and a context with
  the root path \<^verbatim>\<open>/site\<close>, for evaluating the definitions on concrete runs.
\<close>

definition sample_schema :: compiled_schema where
  "sample_schema = \<lparr>config = None, collections = ''posts''\<rparr>"

definition sample_env :: env where
  "sample_env =
     \<lparr>ext_isProjectTs = (\<lambda>_ _. Inr True),
      ext_makeIsomorphicOptions = (\<lambda>_ _. Inr ''main''),
      ext_resetGeneratedFolder = (\<lambda>_ _ _ d. (Inr (), d)),
      ext_compileSchema = (\<lambda>_ _ _ d. (Inr sample_schema, d)),
      ext_buildSchema = (\<lambda>_ _ _ _ d. (Inr (''graphql'', ''tina''), d)),
      ext_getASTSchema = (\<lambda>_ _ _. Inr ''ast''),
      ext_genTypes = (\<lambda>_ _ _ _ d. (Inr (), d)),
      ext_genClient = (\<lambda>_ _ _ _ d. (Inr ''http://localhost:4001/graphql'', d)),
      ext_viteBuild = (\<lambda>_ _ _ _ d. (Inr (), d)),
      ext_bridge_has_addOutputPath = (\<lambda>_. True),
      ext_store_io_ok = (\<lambda>_ _. True),
      ext_index_writes = (\<lambda>_ _. []),
      ext_index_records = (\<lambda>_ d. files d)\<rparr>"

definition sample_ctx :: ctx where
  "sample_ctx =
     \<lparr>ctx_rootPath = ''/site'', ctx_usingTs = True, ctx_bridge = None, ctx_database = None,
      ctx_builder = None, ctx_schema = None, ctx_apiUrl = None\<rparr>"

definition sample_world :: world where
  "sample_world =
     \<lparr>cmd_ctx = sample_ctx, disk = \<lparr>dirs = {}, files = Map.empty\<rparr>, bridges = [], stores = [],
      databases = [], trace = []\<rparr>"

definition sample_options :: CmdOptions where
  "sample_options =
     \<lparr>co_local = False, co_dev = None, co_verbose = None, co_rootPath = None, co_noSDK = None,
      co_port = None\<rparr>"

definition sample_setup_options :: BuildSetupOptions where
  "sample_setup_options = \<lparr>isomorphicGitBridge = None, experimentalData = None\<rparr>"

text \<open>A schema compilation that fails, whatever the options and the disk.\<close>

definition invalid_schema_env :: env where
  "invalid_schema_env = sample_env\<lparr>ext_compileSchema := (\<lambda>_ _ _ d. (Inl SchemaInvalid, d))\<rparr>"

text \<open>An indexing pass that attempts one write through the Bridge.\<close>

definition writing_env :: env where
  "writing_env = sample_env\<lparr>ext_index_writes := (\<lambda>_ _. [(''posts/a.md'', Some ''cleaned'')])\<rparr>"

text \<open>A Database created directly on the empty disk, and a ConfigBuilder on it.\<close>

definition bare_world :: world where
  "bare_world =
     world_after
       (await (new_Bridge FilesystemBridge ''/site'' None) (\<lambda>bridge.
        await (new_LevelStore ''/site'' True) (\<lambda>store.
        createDatabase store bridge)))
       sample_world"

definition sample_build_options :: BuildOptions where
  "sample_build_options =
     \<lparr>bo_local = False, bo_dev = None, bo_verbose = None, bo_rootPath = Some ''/site''\<rparr>"

text \<open>A project whose content changed after it was indexed: the Store holds the Record of
  the old content of \<^verbatim>\<open>posts/a.md\<close>.\<close>

definition stale_world :: world where
  "stale_world =
     \<lparr>cmd_ctx = sample_ctx\<lparr>ctx_bridge := Some 0, ctx_database := Some 0,
                            ctx_builder := Some \<lparr>cb_database = 0\<rparr>\<rparr>,
      disk = \<lparr>dirs = set (dir_chain (generatedPath ''/site'')),
               files = [[''/site'', ''posts/a.md''] \<mapsto> ''new'']\<rparr>,
      bridges = [\<lparr>kind = FilesystemBridge, bridge_rootPath = ''/site'', isomorphicOptions = None,
                  outputPath = None\<rparr>],
      stores = [\<lparr>store_rootPath = ''/site'', useMemoryStore = True, opened = True,
                 records = [[''/site'', ''posts/a.md''] \<mapsto> ''old'']\<rparr>],
      databases = [\<lparr>db_store = 0, db_bridge = 0, cache = Map.empty\<rparr>],
      trace = []\<rparr>"

text \<open>A schema that configures a remote root path, and a compilation that returns it.\<close>

definition remote_schema :: compiled_schema where
  "remote_schema =
     \<lparr>config = Some \<lparr>remote = Some \<lparr>remote_rootPath = Some ''/content''\<rparr>, build_cfg = None\<rparr>,
      collections = ''posts''\<rparr>"

definition remote_env :: env where
  "remote_env = sample_env\<lparr>ext_compileSchema := (\<lambda>_ _ _ d. (Inr remote_schema, d))\<rparr>"

text \<open>A schema compilation that fails on a project that has no \<^verbatim>\<open>.tina/schema.ts\<close>, and
  only there.\<close>

definition missing_schema_env :: env where
  "missing_schema_env =
     sample_env\<lparr>ext_compileSchema :=
       (\<lambda>_ _ root d. if files d [root, ''.tina'', ''schema.ts''] = None then (Inl SchemaInvalid, d)
                      else (Inr sample_schema, d))\<rparr>"

text \<open>A build that \<^verbatim>\<open>resetGeneratedFolder\<close> interrupts, between the \<^verbatim>\<open>close\<close> and the \<^verbatim>\<open>open\<close>
  of the Store, and the world it leaves: the Store is closed.\<close>

definition failing_reset_env :: env where
  "failing_reset_env = sample_env\<lparr>ext_resetGeneratedFolder := (\<lambda>_ _ _ d. (Inl IOError, d))\<rparr>"

definition closed_world :: world where
  "closed_world =
     world_after (build failing_reset_env \<lparr>cb_database = 0\<rparr> sample_build_options) bare_world"

section \<open>The login popup (tinacms/src/auth/authenticate.ts)\<close>

text \<open>
  The data of a message event is any JavaScript value. Reading a property of \<^verbatim>\<open>undefined\<close>
  or \<^verbatim>\<open>null\<close> throws; a primitive has none of the properties read here; an object has
  the properties it lists.
\<close>

datatype js_value =
    JUndefined
  | JNull
  | JBool bool
  | JNumber int
  | JString string
  | JObject "(string \<times> js_value) list"

definition TINA_LOGIN_EVENT :: string where
  "TINA_LOGIN_EVENT = ''tinaCloudLogin''"

definition get_prop :: "js_value \<Rightarrow> string \<Rightarrow> error + js_value" where
  "get_prop v key =
     (case v of
        JUndefined \<Rightarrow> Inl (TypeError ''Cannot read properties of undefined'')
      | JNull \<Rightarrow> Inl (TypeError ''Cannot read properties of null'')
      | JObject kvs \<Rightarrow> Inr (case map_of kvs key of None \<Rightarrow> JUndefined | Some x \<Rightarrow> x)
      | _ \<Rightarrow> Inr JUndefined)"

record TokenObject =
  id_token :: js_value
  access_token :: js_value
  refresh_token :: js_value

record MessageEvent =
  ev_origin :: string
  ev_data :: js_value

record window_location =
  protocol :: string
  host :: string

record popup =
  popup_url :: string
  popup_closed :: bool

datatype 'a promise_state = Pending | Fulfilled 'a | Rejected error

text \<open>
  The promise, the window that \<^verbatim>\<open>popupWindow\<close> returned (none where the browser opened
  none), whether the listener for \<^verbatim>\<open>message\<close> events has been added, and the errors
  thrown inside the listener, which the promise does not see.
\<close>

record auth_state =
  promise :: "TokenObject promise_state"
  authTab :: "popup option"
  listening :: bool
  uncaught :: "error list"

text \<open>\<^verbatim>\<open>resolve\<close> settles a pending promise and does nothing to a settled one.\<close>

definition resolve :: "TokenObject \<Rightarrow> auth_state \<Rightarrow> auth_state" where
  "resolve t s = (case promise s of Pending \<Rightarrow> s\<lparr>promise := Fulfilled t\<rparr> | _ \<Rightarrow> s)"

text \<open>\<^verbatim>\<open>if (authTab) { authTab.close() }\<close>\<close>

definition close_tab :: "auth_state \<Rightarrow> auth_state" where
  "close_tab s =
     (case authTab s of None \<Rightarrow> s | Some t \<Rightarrow> s\<lparr>authTab := Some (t\<lparr>popup_closed := True\<rparr>)\<rparr>)"

text \<open>A property of a value that is neither \<^verbatim>\<open>undefined\<close> nor \<^verbatim>\<open>null\<close>.\<close>

definition field :: "js_value \<Rightarrow> string \<Rightarrow> js_value" where
  "field v key = (case get_prop v key of Inl _ \<Rightarrow> JUndefined | Inr x \<Rightarrow> x)"

definition token_of :: "js_value \<Rightarrow> TokenObject" where
  "token_of d =
     \<lparr>id_token = field d ''id_token'', access_token = field d ''access_token'',
      refresh_token = field d ''refresh_token''\<rparr>"

text \<open>The listener that \<^verbatim>\<open>authenticate\<close> adds for \<^verbatim>\<open>message\<close> events.\<close>

definition on_message :: "auth_state \<Rightarrow> MessageEvent \<Rightarrow> auth_state" where
  "on_message s e =
     (case get_prop (ev_data e) ''source'' of
        Inl err \<Rightarrow> s\<lparr>uncaught := uncaught s @ [err]\<rparr>
      | Inr src \<Rightarrow>
          if src = JString TINA_LOGIN_EVENT then resolve (token_of (ev_data e)) (close_tab s)
          else s)"

text \<open>
  The state when \<^verbatim>\<open>authenticate\<close> returns. \<^verbatim>\<open>popupWindow\<close> of \<^verbatim>\<open>./popupWindow\<close> is a
  parameter: it may throw, and where it returns it tells whether a window was opened. The
  executor of \<^verbatim>\<open>new Promise\<close> calls it before it adds the listener, and an exception
  thrown inside an executor rejects the promise: where \<^verbatim>\<open>popupWindow\<close> throws, the promise
  is rejected with the error thrown and no listener is added; where it returns, the
  listener is added and the promise is pending.
\<close>

definition authenticate ::
  "(string \<Rightarrow> string \<Rightarrow> nat \<Rightarrow> nat \<Rightarrow> error + bool) \<Rightarrow> window_location \<Rightarrow> string \<Rightarrow> string
     \<Rightarrow> auth_state" where
  "authenticate popupWindow loc clientId frontendUrl =
     (let origin = protocol loc @ ''//'' @ host loc;
          url = frontendUrl @ ''/signin?clientId='' @ clientId @ ''&origin='' @ origin
      in case popupWindow url ''_blank'' 1000 700 of
           Inl e \<Rightarrow>
             \<lparr>promise = Rejected e, authTab = None, listening = False, uncaught = []\<rparr>
         | Inr has_window \<Rightarrow>
             \<lparr>promise = Pending,
              authTab = (if has_window then Some \<lparr>popup_url = url, popup_closed = False\<rparr> else None),
              listening = True, uncaught = []\<rparr>)"

text \<open>
  The message events the window receives afterwards, in order: each one goes to the
  listener, where one was added.
\<close>

fun deliver :: "auth_state \<Rightarrow> MessageEvent list \<Rightarrow> auth_state" where
  "deliver s [] = s"
| "deliver s (e # es) = deliver (if listening s then on_message s e else s) es"

definition is_login :: "MessageEvent \<Rightarrow> bool" where
  "is_login e = (get_prop (ev_data e) ''source'' = Inr (JString TINA_LOGIN_EVENT))"

definition sample_location :: window_location where
  "sample_location = \<lparr>protocol = ''https:'', host = ''example.com''\<rparr>"

definition login_message :: MessageEvent where
  "login_message =
     \<lparr>ev_origin = ''https://app.tina.io'',
      ev_data = JObject [(''source'', JString ''tinaCloudLogin''), (''id_token'', JString ''id1''),
                         (''access_token'', JString ''ac1'')]\<rparr>"

definition sample_messages :: "MessageEvent list" where
  "sample_messages =
     [\<lparr>ev_origin = ''https://example.com'', ev_data = JString ''hello''\<rparr>,
      \<lparr>ev_origin = ''https://example.com'', ev_data = JNull\<rparr>,
      login_message,
      \<lparr>ev_origin = ''https://evil.example'',
       ev_data = JObject [(''source'', JString ''tinaCloudLogin''), (''id_token'', JString ''id2'')]\<rparr>]"

section \<open>The media list item (ListMediaItem)\<close>

record Media =
  media_type :: string
  media_id :: string
  filename :: string
  directory :: string
  thumbnail :: "string option"

text \<open>The properties of the component; \<open>onSelect\<close> and \<open>onDelete\<close> tell whether the optional
  callback was given.\<close>

record MediaItemProps =
  item :: Media
  onSelect :: bool
  onDelete :: bool

datatype handler = OnClick Media | OnSelect Media | OnDelete Media

text \<open>A rendered element: tag, properties, click handler, children.\<close>

datatype vnode =
    Element string "(string \<times> string) list" "handler option" "vnode list"
  | Text string

fun subnodes :: "vnode \<Rightarrow> vnode list" where
  "subnodes (Element tag props h children) =
     Element tag props h children # concat (map subnodes children)"
| "subnodes (Text t) = [Text t]"

definition Filename :: "string \<Rightarrow> vnode list \<Rightarrow> vnode" where
  "Filename className children =
     Element ''span''
       [(''className'', ''text-base flex-grow w-full break-words truncate '' @ className)] None
       children"

definition insert_button :: "Media \<Rightarrow> vnode" where
  "insert_button i =
     Element ''Button'' [(''size'', ''medium''), (''variant'', ''white'')] (Some (OnSelect i))
       [Text ''Insert'', Text '' '',
        Element ''BiArrowToBottom''
          [(''className'', ''ml-1 -mr-0.5 w-6 h-auto text-blue-500 opacity-70'')] None []]"

definition delete_button :: "Media \<Rightarrow> vnode" where
  "delete_button i =
     Element ''IconButton'' [(''variant'', ''ghost''), (''size'', ''medium'')] (Some (OnDelete i))
       [Element ''TrashIcon'' [(''className'', ''w-6 h-auto'')] None []]"

definition ListMediaItem :: "MediaItemProps \<Rightarrow> vnode" where
  "ListMediaItem p =
     (let FileIcon = (if media_type (item p) = ''dir'' then ''Folder'' else ''File'') in
      Element ''li''
        [(''className'',
          ''flex gap-3 items-center py-2 pl-2 pr-3 bg-white transition duration-150 ease-out hover:bg-white/50 ''
          @ (if media_type (item p) = ''dir'' then ''cursor-pointer'' else []))]
        (Some (OnClick (item p)))
        [Element ''div''
           [(''className'',
             ''w-20 h-20 border border-gray-100 rounded overflow-hidden flex justify-center flex-shrink-0'')]
           None
           [case truthy (thumbnail (item p)) of
              Some src \<Rightarrow>
                Element ''img''
                  [(''className'', ''object-cover w-full h-full object-center''),
                   (''src'', src), (''alt'', filename (item p))] None []
            | None \<Rightarrow> Element FileIcon [(''className'', ''w-[47%] h-full fill-gray-300'')] None []],
         Filename [] [Text (filename (item p))],
         Element ''div''
           [(''className'',
             ''flex justify-end gap-3 items-center group transition duration-150 ease-out opacity-70 hover:opacity-100'')]
           None
           ((if onSelect p \<and> media_type (item p) = ''file'' then [insert_button (item p)] else [])
            @ (if onDelete p \<and> media_type (item p) = ''file'' then [delete_button (item p)] else []))])"

fun is_button :: "vnode \<Rightarrow> bool" where
  "is_button (Element tag props h children) = (tag = ''Button'' \<or> tag = ''IconButton'')"
| "is_button (Text t) = False"

definition sample_file :: Media where
  "sample_file =
     \<lparr>media_type = ''file'', media_id = ''a.png'', filename = ''a.png'', directory = [],
      thumbnail = None\<rparr>"

definition sample_dir :: Media where
  "sample_dir =
     \<lparr>media_type = ''dir'', media_id = ''img'', filename = ''img'', directory = [],
      thumbnail = None\<rparr>"

section \<open>Properties of the build orchestration\<close>

subsection \<open>Steps of a run\<close>

lemmas prims = ret_def throw_def await_def emit_def on_disk_def deref_def get_database_def
  get_store_def get_bridge_def set_database_def set_store_def set_bridge_def new_bridge_def
  new_store_def new_database_def get_ctx_def set_ctx_def defined_def next_cb_def spin_def

lemmas run_defs = prims calls_of_def result_of_def world_after_def
  isProjectTs_def makeIsomorphicOptions_def resetGeneratedFolder_def compileSchema_def
  buildSchema_def getASTSchema_def genTypes_def genClient_def viteBuild_def fs_mkdirp_def
  fs_ensureDirSync_def new_Bridge_def new_LevelStore_def createDatabase_def clearCache_def
  store_close_def store_open_def addOutputPath_def indexContent_def
  addOutputPath_if_configured_def build_def genTypedClient_def buildAdmin_def build_args_def
  buildCmdBuild_def auditCmdBuild_def buildSetup_def attach_def buildSetupCmdBuild_def
  buildSetupCmdServerStart_def buildSetupCmdAudit_def build_run_def audit_run_def
  generatedPath_def path_join_def mkdirs_def truthy_def config_remote_rootPath_def
  config_build_def bridge_put_def bridge_delete_def
  sample_env_def sample_ctx_def sample_world_def sample_options_def sample_setup_options_def
  sample_schema_def sample_build_options_def invalid_schema_env_def writing_env_def
  bare_world_def stale_world_def

lemmas run_defs_ext = run_defs compile_result_def output_calls_def build_calls_def
  builder_bridge_kind_def remote_schema_def remote_env_def missing_schema_env_def
  failing_reset_env_def closed_world_def build_head_def client_calls_def admin_calls_def

lemma awaitE:
  assumes "await m k w = (r, w')"
  obtains (fail) e where "m w = (Inl e, w')" "r = Inl e"
        | (go) x w1 where "m w = (Inr x, w1)" "k x w1 = (r, w')"
  using assms by (auto simp: await_def split: prod.splits sum.splits)



lemma calls_of_eq: "m w = (r, w') \<Longrightarrow> calls_of m w = drop (length (trace w)) (trace w')"
  by (simp add: calls_of_def)

lemma calls_of_app: "m w = (r, w') \<Longrightarrow> trace w' = trace w @ evs \<Longrightarrow> calls_of m w = evs"
  by (simp add: calls_of_def)

lemma map_update_same: "f v = f (xs ! i) \<Longrightarrow> map f (xs[i := v]) = map f xs"
  by (induction xs arbitrary: i) (auto split: nat.splits)


lemma isProjectTs_spec:
  "isProjectTs E rp w = (r, w') \<Longrightarrow>
     trace w' = trace w @ [CallIsProjectTs rp] \<and> heap w' = heap w \<and> disk w' = disk w
     \<and> r = ext_isProjectTs E rp (disk w)"
  by (auto simp: isProjectTs_def prims heap_def split: sum.splits prod.splits)

lemma clearCache_spec:
  "clearCache d w = (r, w') \<Longrightarrow>
     trace w' = trace w @ [CallClearCache] \<and> wiring w' = wiring w \<and> cmd_ctx w' = cmd_ctx w
     \<and> disk w' = disk w \<and> stores w' = stores w \<and> bridges w' = bridges w"
  by (auto simp: clearCache_def prims wiring_def map_update_same
           split: sum.splits prod.splits if_splits)

lemma fs_mkdirp_spec:
  "fs_mkdirp p w = (r, w') \<Longrightarrow>
     trace w' = trace w @ [CallMkdirp p] \<and> heap w' = heap w
     \<and> (r = Inr () \<longrightarrow> mkdirs p (disk w) = Inr (disk w'))"
  by (auto simp: fs_mkdirp_def prims heap_def split: sum.splits prod.splits if_splits)

lemma fs_ensureDirSync_spec:
  "fs_ensureDirSync p w = (r, w') \<Longrightarrow>
     trace w' = trace w @ [CallEnsureDirSync p] \<and> heap w' = heap w
     \<and> (r = Inr () \<longrightarrow> mkdirs p (disk w) = Inr (disk w'))"
  by (auto simp: fs_ensureDirSync_def prims heap_def split: sum.splits prod.splits if_splits)

lemma store_close_spec:
  "store_close E d w = (r, w') \<Longrightarrow>
     trace w' = trace w @ [CallStoreClose] \<and> wiring w' = wiring w \<and> cmd_ctx w' = cmd_ctx w
     \<and> disk w' = disk w \<and> databases w' = databases w \<and> bridges w' = bridges w"
  by (auto simp: store_close_def prims wiring_def map_update_same
           split: sum.splits prod.splits if_splits)

lemma store_open_spec:
  "store_open E d w = (r, w') \<Longrightarrow>
     trace w' = trace w @ [CallStoreOpen] \<and> wiring w' = wiring w \<and> cmd_ctx w' = cmd_ctx w
     \<and> disk w' = disk w \<and> databases w' = databases w \<and> bridges w' = bridges w
     \<and> (r = Inr () \<longrightarrow> d < length (databases w')
            \<and> db_store (databases w' ! d) < length (stores w')
            \<and> opened (stores w' ! db_store (databases w' ! d)))"
  by (auto simp: store_open_def prims wiring_def map_update_same
           split: sum.splits prod.splits if_splits)

lemma resetGeneratedFolder_spec:
  "resetGeneratedFolder E g u b w = (r, w') \<Longrightarrow>
     trace w' = trace w @ [CallResetGeneratedFolder g u b] \<and> heap w' = heap w"
  by (auto simp: resetGeneratedFolder_def prims heap_def split: sum.splits prod.splits if_splits)

lemma compileSchema_spec:
  "compileSchema E v d root w = (r, w') \<Longrightarrow>
     trace w' = trace w @ [CallCompileSchema v d root] \<and> heap w' = heap w
     \<and> disk w' = snd (ext_compileSchema E v d root (disk w))
     \<and> r = fst (ext_compileSchema E v d root (disk w))"
  by (auto simp: compileSchema_def prims heap_def split: sum.splits prod.splits if_splits)

lemma buildSchema_spec:
  "buildSchema E root d fl w = (r, w') \<Longrightarrow>
     trace w' = trace w @ [CallBuildSchema root] \<and> heap w' = heap w
     \<and> ((\<exists>x. r = Inr x) \<longrightarrow> d < length (databases w)
           \<and> db_store (databases w ! d) < length (stores w)
           \<and> db_bridge (databases w ! d) < length (bridges w))"
  by (auto simp: buildSchema_def prims heap_def split: sum.splits prod.splits if_splits)

lemma addOutputPath_if_configured_spec:
  "addOutputPath_if_configured E d s w = (r, w') \<Longrightarrow>
     (trace w' = trace w \<or> (\<exists>p. trace w' = trace w @ [CallAddOutputPath p]))
     \<and> wiring w' = wiring w \<and> cmd_ctx w' = cmd_ctx w \<and> disk w' = disk w
     \<and> databases w' = databases w \<and> stores w' = stores w
     \<and> length (bridges w') = length (bridges w)"
  by (auto simp: addOutputPath_if_configured_def addOutputPath_def prims wiring_def map_update_same
           split: sum.splits prod.splits if_splits option.splits)

lemmas build_specs = isProjectTs_spec clearCache_spec fs_mkdirp_spec store_close_spec
  store_open_spec resetGeneratedFolder_spec compileSchema_spec buildSchema_spec
  addOutputPath_if_configured_spec

subsection \<open>ConfigBuilder.build\<close>

lemma build_absent:
  assumes "truthy (bo_rootPath opts) = None"
  shows "\<exists>e. build E this opts w = (Inl e, w\<lparr>trace := trace w @ [CallIsProjectTs (bo_rootPath opts)]\<rparr>)
           \<and> (\<forall>b. ext_isProjectTs E (bo_rootPath opts) (disk w) = Inr b
                 \<longrightarrow> e = Error ''Root path has not been attached'')"
  using assms by (auto simp: build_def isProjectTs_def prims split: sum.splits)



lemma build_trace:
  assumes "build E this opts w = (r, w')" "truthy (bo_rootPath opts) = Some root"
  shows "\<exists>usingTs.
      (case r of
         Inr res \<Rightarrow>
           calls_of (build E this opts) w = build_head opts root usingTs @ [CallBuildSchema root]
           \<or> (\<exists>p. calls_of (build E this opts) w
                   = build_head opts root usingTs @ [CallAddOutputPath p, CallBuildSchema root])
       | Inl e \<Rightarrow>
           prefix (calls_of (build E this opts) w)
             (build_head opts root usingTs @ [CallBuildSchema root])
           \<or> (\<exists>p. prefix (calls_of (build E this opts) w)
                   (build_head opts root usingTs @ [CallAddOutputPath p, CallBuildSchema root])))"
  unfolding calls_of_eq[of "build E this opts" w r w', OF assms(1)]
  using assms
  apply (simp add: build_def)
  apply (elim awaitE)
  by (auto dest!: build_specs simp: build_head_def ret_def split: prod.splits)

lemma build_extends:
  assumes "build E this opts w = (r, w')"
  shows "trace w' = trace w @ calls_of (build E this opts) w"
  unfolding calls_of_eq[of "build E this opts" w r w', OF assms(1)]
  using assms
  apply (simp add: build_def)
  apply (erule awaitE)
   apply (auto dest!: build_specs)[1]
  apply (cases "truthy (bo_rootPath opts)")
   apply (auto dest!: build_specs simp: throw_def)[1]
  apply simp
  apply (elim awaitE)
  by (auto dest!: build_specs simp: ret_def split: prod.splits)

lemma only_after_prefix: "prefix xs ys \<Longrightarrow> only_after P Q ys \<Longrightarrow> only_after P Q xs"
proof (induction xs arbitrary: ys)
  case Nil
  then show ?case by simp
next
  case (Cons x xs)
  then obtain zs where ys: "ys = x # zs" and p: "prefix xs zs"
    by (cases ys) auto
  with Cons show ?case by (auto split: if_splits)
qed

lemma build_calls_cases:
  obtains (absent) e where "truthy (bo_rootPath opts) = None"
      "calls_of (build E this opts) w = [CallIsProjectTs (bo_rootPath opts)]"
      "result_of (build E this opts) w = Inl e"
    | (plain) root usingTs where "truthy (bo_rootPath opts) = Some root"
      "prefix (calls_of (build E this opts) w) (build_head opts root usingTs @ [CallBuildSchema root])"
    | (redirected) root usingTs p where "truthy (bo_rootPath opts) = Some root"
      "prefix (calls_of (build E this opts) w)
         (build_head opts root usingTs @ [CallAddOutputPath p, CallBuildSchema root])"
proof (cases "truthy (bo_rootPath opts)")
  case None
  from build_absent[OF None, of E this w] obtain e where
    "build E this opts w = (Inl e, w\<lparr>trace := trace w @ [CallIsProjectTs (bo_rootPath opts)]\<rparr>)"
    by blast
  then have "calls_of (build E this opts) w = [CallIsProjectTs (bo_rootPath opts)]"
    "result_of (build E this opts) w = Inl e"
    by (simp_all add: calls_of_def result_of_def)
  with None absent show ?thesis by blast
next
  case (Some root)
  obtain r w' where run: "build E this opts w = (r, w')" by fastforce
  from build_trace[OF run Some] obtain u where
    u: "case r of
          Inr res \<Rightarrow>
            calls_of (build E this opts) w = build_head opts root u @ [CallBuildSchema root]
            \<or> (\<exists>p. calls_of (build E this opts) w
                    = build_head opts root u @ [CallAddOutputPath p, CallBuildSchema root])
        | Inl e \<Rightarrow>
            prefix (calls_of (build E this opts) w)
              (build_head opts root u @ [CallBuildSchema root])
            \<or> (\<exists>p. prefix (calls_of (build E this opts) w)
                    (build_head opts root u @ [CallAddOutputPath p, CallBuildSchema root]))"
    by blast
  then consider
      "prefix (calls_of (build E this opts) w) (build_head opts root u @ [CallBuildSchema root])"
    | p where "prefix (calls_of (build E this opts) w)
                 (build_head opts root u @ [CallAddOutputPath p, CallBuildSchema root])"
    by (cases r) auto
  then show ?thesis
  proof cases
    case 1
    from plain[OF Some 1] show ?thesis .
  next
    case 2
    from redirected[OF Some 2] show ?thesis .
  qed
qed

subsection \<open>Claims on ConfigBuilder.build\<close>

text \<open>
  C6. A call of \<^verbatim>\<open>ConfigBuilder.build\<close> without a root path (\<^verbatim>\<open>undefined\<close> or the empty
  string) fails; the error is \<^verbatim>\<open>Root path has not been attached\<close> whenever the
  \<^verbatim>\<open>isProjectTs\<close> call before the check returns; and nothing after the check runs: the
  only call made is that of \<^verbatim>\<open>isProjectTs\<close>, and the world is otherwise as before.
\<close>

theorem build_without_rootPath_fails:
  assumes "bo_rootPath opts = None \<or> bo_rootPath opts = Some []"
  shows "(\<exists>e. result_of (build E this opts) w = Inl e)
    \<and> (\<forall>usingTs. ext_isProjectTs E (bo_rootPath opts) (disk w) = Inr usingTs
          \<longrightarrow> result_of (build E this opts) w = Inl (Error ''Root path has not been attached''))
    \<and> calls_of (build E this opts) w = [CallIsProjectTs (bo_rootPath opts)]
    \<and> world_after (build E this opts) w
        = w\<lparr>trace := trace w @ [CallIsProjectTs (bo_rootPath opts)]\<rparr>"
proof -
  from assms have "truthy (bo_rootPath opts) = None"
    by (auto simp: truthy_def)
  from build_absent[OF this, of E this w] show ?thesis
    by (auto simp: result_of_def calls_of_def world_after_def)
qed

theorem build_without_rootPath_fails_witness:
  "bo_rootPath (sample_build_options\<lparr>bo_rootPath := None\<rparr>) = None
   \<and> result_of (build sample_env \<lparr>cb_database = 0\<rparr> (sample_build_options\<lparr>bo_rootPath := None\<rparr>))
       bare_world = Inl (Error ''Root path has not been attached'')
   \<and> calls_of (build sample_env \<lparr>cb_database = 0\<rparr> (sample_build_options\<lparr>bo_rootPath := None\<rparr>))
       bare_world = [CallIsProjectTs None]"
proof -
  have h: "bo_rootPath (sample_build_options\<lparr>bo_rootPath := None\<rparr>) = None
           \<or> bo_rootPath (sample_build_options\<lparr>bo_rootPath := None\<rparr>) = Some []"
    by simp
  have o: "ext_isProjectTs sample_env (bo_rootPath (sample_build_options\<lparr>bo_rootPath := None\<rparr>))
             (disk bare_world) = Inr True"
    by (simp add: sample_env_def)
  from build_without_rootPath_fails[OF h, of sample_env "\<lparr>cb_database = 0\<rparr>" bare_world] o
  show ?thesis by auto
qed

text \<open>
  C7. In every run of \<^verbatim>\<open>ConfigBuilder.build\<close> no schema compilation is called before
  \<^verbatim>\<open>Database.clearCache\<close> has been called, and \<^verbatim>\<open>clearCache\<close> leaves the Stores (and the
  disk) as they are.
\<close>

theorem clearCache_before_compileSchema:
  "only_after (\<lambda>e. e = CallClearCache) is_compileSchema (calls_of (build E this opts) w)
   \<and> stores (world_after (clearCache d) w) = stores w
   \<and> disk (world_after (clearCache d) w) = disk w"
proof -
  have "only_after (\<lambda>e. e = CallClearCache) is_compileSchema (calls_of (build E this opts) w)"
  proof (cases rule: build_calls_cases[of opts E this w])
    case (absent e)
    then show ?thesis by simp
  next
    case (plain root usingTs)
    from only_after_prefix[OF plain(2)] show ?thesis
      by (simp add: build_head_def)
  next
    case (redirected root usingTs p)
    from only_after_prefix[OF redirected(2)] show ?thesis
      by (simp add: build_head_def)
  qed
  moreover obtain r w' where c: "clearCache d w = (r, w')" by fastforce
  ultimately show ?thesis
    using clearCache_spec[OF c] by (simp add: world_after_def)
qed

lemma sample_build_calls:
  "calls_of (build sample_env \<lparr>cb_database = 0\<rparr> sample_build_options) bare_world
     = [CallIsProjectTs (Some ''/site''), CallClearCache,
        CallMkdirp [''/site'', ''.tina'', ''__generated__''], CallStoreClose,
        CallResetGeneratedFolder [''/site'', ''.tina'', ''__generated__''] True True,
        CallStoreOpen, CallCompileSchema None None ''/site'', CallBuildSchema ''/site'']"
  by (simp add: run_defs)

theorem clearCache_before_compileSchema_witness:
  "calls_of (build sample_env \<lparr>cb_database = 0\<rparr> sample_build_options) bare_world
     = [CallIsProjectTs (Some ''/site''), CallClearCache,
        CallMkdirp [''/site'', ''.tina'', ''__generated__''], CallStoreClose,
        CallResetGeneratedFolder [''/site'', ''.tina'', ''__generated__''] True True,
        CallStoreOpen, CallCompileSchema None None ''/site'', CallBuildSchema ''/site'']
   \<and> only_after (\<lambda>e. e = CallClearCache) is_compileSchema
        (calls_of (build sample_env \<lparr>cb_database = 0\<rparr> sample_build_options) bare_world)"
  using clearCache_before_compileSchema
    [of sample_env "\<lparr>cb_database = 0\<rparr>" sample_build_options bare_world]
  by (simp add: sample_build_calls)

subsection \<open>The setup commands\<close>

lemma dir_chain_self: "p \<noteq> [] \<Longrightarrow> p \<in> set (dir_chain p)"
proof (induction p)
  case Nil
  then show ?case by simp
next
  case (Cons x xs)
  then show ?case by (cases "xs = []") auto
qed

lemma mkdirs_creates:
  "mkdirs p d = Inr d' \<Longrightarrow> p \<noteq> [] \<Longrightarrow> p \<in> dirs d' \<and> dirs d \<subseteq> dirs d' \<and> files d' = files d"
  by (auto simp: mkdirs_def dir_chain_self split: if_splits)

lemma only_after_none: "\<forall>e \<in> set xs. \<not> Q e \<Longrightarrow> only_after P Q xs"
  by (induction xs) auto

lemma only_after_append:
  "\<forall>e \<in> set xs. \<not> Q e \<Longrightarrow> \<exists>e \<in> set xs. P e \<Longrightarrow> only_after P Q (xs @ ys)"
  by (induction xs) auto

lemma buildSetup_spec:
  assumes "buildSetup E git root mem w = (r, w')"
  shows "\<exists>evs. trace w' = trace w @ evs \<and> CallNext \<notin> set evs \<and> cmd_ctx w' = cmd_ctx w
     \<and> list_all (new_store_is root mem) evs
     \<and> (\<forall>d b s. r = Inr (d, b, s) \<longrightarrow>
           CallEnsureDirSync (generatedPath root) \<in> set evs
           \<and> generatedPath root \<in> dirs (disk w')
           \<and> d < length (databases w') \<and> databases w' ! d = \<lparr>db_store = s, db_bridge = b, cache = Map.empty\<rparr>
           \<and> s < length (stores w')
           \<and> stores w' ! s = \<lparr>store_rootPath = root, useMemoryStore = mem, opened = True,
                                records = Map.empty\<rparr>
           \<and> b < length (bridges w')
           \<and> kind (bridges w' ! b) = (if git = Some True then IsomorphicBridge else FilesystemBridge)
           \<and> bridge_rootPath (bridges w' ! b) = root)"
  using assms
  by (auto simp: buildSetup_def new_Bridge_def makeIsomorphicOptions_def fs_ensureDirSync_def
        new_LevelStore_def createDatabase_def prims generatedPath_def path_join_def
        mkdirs_def nth_append
      split: sum.splits prod.splits if_splits)

lemma buildSetupCmdBuild_spec:
  assumes "buildSetupCmdBuild E opts w = (r, w')"
  shows "\<exists>evs. CallNext \<notin> set evs
     \<and> list_all (new_store_is (ctx_rootPath (cmd_ctx w)) True) evs
     \<and> (case r of
          Inl e \<Rightarrow> calls_of (buildSetupCmdBuild E opts) w = evs
        | Inr u \<Rightarrow>
            calls_of (buildSetupCmdBuild E opts) w = evs @ [CallNext]
            \<and> CallEnsureDirSync (generatedPath (ctx_rootPath (cmd_ctx w))) \<in> set evs
            \<and> generatedPath (ctx_rootPath (cmd_ctx w)) \<in> dirs (disk w')
            \<and> database_store w'
                = Some \<lparr>store_rootPath = ctx_rootPath (cmd_ctx w), useMemoryStore = True,
                         opened = True, records = Map.empty\<rparr>)"
  unfolding calls_of_eq[of "buildSetupCmdBuild E opts" w r w', OF assms]
  using assms
  apply (simp add: buildSetupCmdBuild_def)
  apply (elim awaitE)
  by (auto dest!: buildSetup_spec
        simp: get_ctx_def attach_def set_ctx_def next_cb_def emit_def await_def
              database_store_def ctx_database_obj_def
        split: prod.splits sum.splits)

lemma buildSetupCmdServerStart_spec:
  assumes "buildSetupCmdServerStart E opts w = (r, w')"
  shows "\<exists>evs. CallNext \<notin> set evs
     \<and> list_all (new_store_is (ctx_rootPath (cmd_ctx w)) False) evs
     \<and> (case r of
          Inl e \<Rightarrow> calls_of (buildSetupCmdServerStart E opts) w = evs
        | Inr u \<Rightarrow>
            calls_of (buildSetupCmdServerStart E opts) w = evs @ [CallNext]
            \<and> CallEnsureDirSync (generatedPath (ctx_rootPath (cmd_ctx w))) \<in> set evs
            \<and> generatedPath (ctx_rootPath (cmd_ctx w)) \<in> dirs (disk w')
            \<and> database_store w'
                = Some \<lparr>store_rootPath = ctx_rootPath (cmd_ctx w), useMemoryStore = False,
                         opened = True, records = Map.empty\<rparr>)"
  unfolding calls_of_eq[of "buildSetupCmdServerStart E opts" w r w', OF assms]
  using assms
  apply (simp add: buildSetupCmdServerStart_def)
  apply (elim awaitE)
  by (auto dest!: buildSetup_spec
        simp: get_ctx_def attach_def set_ctx_def next_cb_def emit_def await_def
              database_store_def ctx_database_obj_def
        split: prod.splits sum.splits)

lemma buildSetupCmdAudit_spec:
  assumes "buildSetupCmdAudit E clean w = (r, w')"
  shows "case r of
          Inl e \<Rightarrow>
            e = IOError
            \<and> calls_of (buildSetupCmdAudit E clean) w
               = [CallNewBridge (if clean then FilesystemBridge else AuditFileSystemBridge)
                    (ctx_rootPath (cmd_ctx w)),
                  CallEnsureDirSync (generatedPath (ctx_rootPath (cmd_ctx w)))]
        | Inr u \<Rightarrow>
            calls_of (buildSetupCmdAudit E clean) w
               = [CallNewBridge (if clean then FilesystemBridge else AuditFileSystemBridge)
                    (ctx_rootPath (cmd_ctx w)),
                  CallEnsureDirSync (generatedPath (ctx_rootPath (cmd_ctx w))),
                  CallNewLevelStore (ctx_rootPath (cmd_ctx w)) False, CallCreateDatabase,
                  CallNext]
            \<and> generatedPath (ctx_rootPath (cmd_ctx w)) \<in> dirs (disk w')
            \<and> files (disk w') = files (disk w)
            \<and> bridges w' = bridges w @
                 [\<lparr>kind = (if clean then FilesystemBridge else AuditFileSystemBridge),
                   bridge_rootPath = ctx_rootPath (cmd_ctx w), isomorphicOptions = None,
                   outputPath = None\<rparr>]
            \<and> stores w' = stores w @
                 [\<lparr>store_rootPath = ctx_rootPath (cmd_ctx w), useMemoryStore = False,
                   opened = True, records = Map.empty\<rparr>]
            \<and> databases w' = databases w @
                 [\<lparr>db_store = length (stores w), db_bridge = length (bridges w),
                   cache = Map.empty\<rparr>]
            \<and> cmd_ctx w' = (cmd_ctx w)\<lparr>ctx_bridge := Some (length (bridges w)),
                 ctx_database := Some (length (databases w)),
                 ctx_builder := Some \<lparr>cb_database = length (databases w)\<rparr>\<rparr>"
  unfolding calls_of_eq[of "buildSetupCmdAudit E clean" w r w', OF assms]
  using assms
  by (auto simp: buildSetupCmdAudit_def new_Bridge_def fs_ensureDirSync_def
        new_LevelStore_def createDatabase_def prims attach_def generatedPath_def path_join_def
        mkdirs_def
      split: sum.splits prod.splits if_splits)

lemma build_mkdirp_done:
  assumes "build E this opts w = (r, w')" "truthy (bo_rootPath opts) = Some root"
    "\<exists>e \<in> set (calls_of (build E this opts) w). build_step e"
  shows "\<exists>d'. mkdirs (generatedPath root) (disk w) = Inr d'"
  using assms(3) unfolding calls_of_eq[of "build E this opts" w r w', OF assms(1)]
  using assms(1,2)
  apply (simp add: build_def)
  apply (elim awaitE)
  by (auto dest!: build_specs simp: ret_def split: prod.splits)

lemma build_mkdirp_first:
  assumes "build E this opts w = (r, w')" "truthy (bo_rootPath opts) = Some root"
    "\<exists>e \<in> set (calls_of (build E this opts) w). build_step e"
  shows "\<exists>d'. mkdirs (generatedPath root) (disk w) = Inr d' \<and> generatedPath root \<in> dirs d'"
proof -
  from build_mkdirp_done[OF assms] obtain d' where d: "mkdirs (generatedPath root) (disk w) = Inr d'"
    by blast
  have "generatedPath root \<noteq> []" by (simp add: generatedPath_def path_join_def)
  from mkdirs_creates[OF d this] d show ?thesis by blast
qed

subsection \<open>Claims on the setup commands\<close>

text \<open>
  C4. The setup of the one-shot build command constructs every Store with the in-memory
  flag set, and the setup of the server-start command with the flag cleared (the persistent
  variant), both on the root path of the context; when the setup returns, the Store of the
  Database it attached is that Store.
\<close>

theorem setup_store_variant:
  "list_all (new_store_is (ctx_rootPath (cmd_ctx w)) True) (calls_of (buildSetupCmdBuild E opts) w)
   \<and> (result_of (buildSetupCmdBuild E opts) w = Inr () \<longrightarrow>
        database_store (world_after (buildSetupCmdBuild E opts) w)
          = Some \<lparr>store_rootPath = ctx_rootPath (cmd_ctx w), useMemoryStore = True,
                   opened = True, records = Map.empty\<rparr>)
   \<and> list_all (new_store_is (ctx_rootPath (cmd_ctx w)) False)
        (calls_of (buildSetupCmdServerStart E opts) w)
   \<and> (result_of (buildSetupCmdServerStart E opts) w = Inr () \<longrightarrow>
        database_store (world_after (buildSetupCmdServerStart E opts) w)
          = Some \<lparr>store_rootPath = ctx_rootPath (cmd_ctx w), useMemoryStore = False,
                   opened = True, records = Map.empty\<rparr>)"
proof -
  obtain r1 w1 where b: "buildSetupCmdBuild E opts w = (r1, w1)" by fastforce
  obtain r2 w2 where s: "buildSetupCmdServerStart E opts w = (r2, w2)" by fastforce
  have 1: "list_all (new_store_is (ctx_rootPath (cmd_ctx w)) True)
             (calls_of (buildSetupCmdBuild E opts) w)
   \<and> (result_of (buildSetupCmdBuild E opts) w = Inr () \<longrightarrow>
        database_store (world_after (buildSetupCmdBuild E opts) w)
          = Some \<lparr>store_rootPath = ctx_rootPath (cmd_ctx w), useMemoryStore = True,
                   opened = True, records = Map.empty\<rparr>)"
    using buildSetupCmdBuild_spec[OF b] b
    by (cases r1) (auto simp: result_of_def world_after_def)
  have 2: "list_all (new_store_is (ctx_rootPath (cmd_ctx w)) False)
             (calls_of (buildSetupCmdServerStart E opts) w)
   \<and> (result_of (buildSetupCmdServerStart E opts) w = Inr () \<longrightarrow>
        database_store (world_after (buildSetupCmdServerStart E opts) w)
          = Some \<lparr>store_rootPath = ctx_rootPath (cmd_ctx w), useMemoryStore = False,
                   opened = True, records = Map.empty\<rparr>)"
    using buildSetupCmdServerStart_spec[OF s] s
    by (cases r2) (auto simp: result_of_def world_after_def)
  from 1 2 show ?thesis by blast
qed

lemma sample_setup_build:
  "result_of (buildSetupCmdBuild sample_env sample_setup_options) sample_world = Inr ()
   \<and> calls_of (buildSetupCmdBuild sample_env sample_setup_options) sample_world
      = [CallNewBridge FilesystemBridge ''/site'',
         CallEnsureDirSync [''/site'', ''.tina'', ''__generated__''],
         CallNewLevelStore ''/site'' True, CallCreateDatabase, CallNext]"
  by (simp add: run_defs)

lemma sample_setup_server:
  "result_of (buildSetupCmdServerStart sample_env sample_setup_options) sample_world = Inr ()
   \<and> calls_of (buildSetupCmdServerStart sample_env sample_setup_options) sample_world
      = [CallNewBridge FilesystemBridge ''/site'',
         CallEnsureDirSync [''/site'', ''.tina'', ''__generated__''],
         CallNewLevelStore ''/site'' False, CallCreateDatabase, CallNext]"
  by (simp add: run_defs)

theorem setup_store_variant_witness:
  "result_of (buildSetupCmdBuild sample_env sample_setup_options) sample_world = Inr ()
   \<and> CallNewLevelStore ''/site'' True
        \<in> set (calls_of (buildSetupCmdBuild sample_env sample_setup_options) sample_world)
   \<and> database_store (world_after (buildSetupCmdBuild sample_env sample_setup_options) sample_world)
      = Some \<lparr>store_rootPath = ''/site'', useMemoryStore = True, opened = True,
               records = Map.empty\<rparr>
   \<and> result_of (buildSetupCmdServerStart sample_env sample_setup_options) sample_world = Inr ()
   \<and> CallNewLevelStore ''/site'' False
        \<in> set (calls_of (buildSetupCmdServerStart sample_env sample_setup_options) sample_world)
   \<and> database_store
        (world_after (buildSetupCmdServerStart sample_env sample_setup_options) sample_world)
      = Some \<lparr>store_rootPath = ''/site'', useMemoryStore = False, opened = True,
               records = Map.empty\<rparr>"
  using setup_store_variant[where E = sample_env and opts = sample_setup_options and w = sample_world]
    sample_setup_build sample_setup_server
  by (simp add: sample_world_def sample_ctx_def)

text \<open>
  C8. In each of the three setup commands \<^verbatim>\<open>next()\<close> is called only after
  \<^verbatim>\<open>ensureDirSync\<close> on \<^verbatim>\<open><root>/.tina/__generated__\<close>, and when it is called that directory
  exists. In \<^verbatim>\<open>ConfigBuilder.build\<close> the steps on the Store, the generated folder and the
  schema come only after \<^verbatim>\<open>mkdirp\<close> on that directory, and when one of them runs the
  \<^verbatim>\<open>mkdirp\<close> has succeeded: it has created the directory where it was absent.
\<close>

theorem generated_directory_exists_first:
  "only_after (\<lambda>e. e = CallEnsureDirSync (generatedPath (ctx_rootPath (cmd_ctx w))))
      (\<lambda>e. e = CallNext) (calls_of (buildSetupCmdBuild E opts) w)
   \<and> (CallNext \<in> set (calls_of (buildSetupCmdBuild E opts) w) \<longrightarrow>
        generatedPath (ctx_rootPath (cmd_ctx w))
          \<in> dirs (disk (world_after (buildSetupCmdBuild E opts) w)))
   \<and> only_after (\<lambda>e. e = CallEnsureDirSync (generatedPath (ctx_rootPath (cmd_ctx w))))
      (\<lambda>e. e = CallNext) (calls_of (buildSetupCmdServerStart E opts) w)
   \<and> (CallNext \<in> set (calls_of (buildSetupCmdServerStart E opts) w) \<longrightarrow>
        generatedPath (ctx_rootPath (cmd_ctx w))
          \<in> dirs (disk (world_after (buildSetupCmdServerStart E opts) w)))
   \<and> only_after (\<lambda>e. e = CallEnsureDirSync (generatedPath (ctx_rootPath (cmd_ctx w))))
      (\<lambda>e. e = CallNext) (calls_of (buildSetupCmdAudit E clean) w)
   \<and> (CallNext \<in> set (calls_of (buildSetupCmdAudit E clean) w) \<longrightarrow>
        generatedPath (ctx_rootPath (cmd_ctx w))
          \<in> dirs (disk (world_after (buildSetupCmdAudit E clean) w)))
   \<and> (\<forall>root. truthy (bo_rootPath bopts) = Some root \<longrightarrow>
        only_after (\<lambda>e. e = CallMkdirp (generatedPath root)) build_step
          (calls_of (build E this bopts) w)
        \<and> ((\<exists>e \<in> set (calls_of (build E this bopts) w). build_step e) \<longrightarrow>
             (\<exists>d'. mkdirs (generatedPath root) (disk w) = Inr d' \<and> generatedPath root \<in> dirs d')))"
proof -
  let ?g = "generatedPath (ctx_rootPath (cmd_ctx w))"
  have each: "only_after (\<lambda>e. e = CallEnsureDirSync ?g) (\<lambda>e. e = CallNext) (calls_of m w)
      \<and> (CallNext \<in> set (calls_of m w) \<longrightarrow> ?g \<in> dirs (disk (world_after m w)))"
    if "\<exists>evs. CallNext \<notin> set evs
          \<and> (case fst (m w) of
               Inl e \<Rightarrow> calls_of m w = evs
             | Inr u \<Rightarrow> calls_of m w = evs @ [CallNext] \<and> CallEnsureDirSync ?g \<in> set evs
                         \<and> ?g \<in> dirs (disk (snd (m w))))"
    for m :: "unit proc"
  proof -
    from that obtain evs where n: "CallNext \<notin> set evs"
      and c: "case fst (m w) of
               Inl e \<Rightarrow> calls_of m w = evs
             | Inr u \<Rightarrow> calls_of m w = evs @ [CallNext] \<and> CallEnsureDirSync ?g \<in> set evs
                         \<and> ?g \<in> dirs (disk (snd (m w)))"
      by blast
    show ?thesis
    proof (cases "fst (m w)")
      case (Inl e)
      with c n show ?thesis by (auto intro: only_after_none)
    next
      case (Inr u)
      with c n show ?thesis
        by (auto intro!: only_after_append simp: world_after_def)
    qed
  qed
  obtain r1 w1 where b: "buildSetupCmdBuild E opts w = (r1, w1)" by fastforce
  obtain r2 w2 where s: "buildSetupCmdServerStart E opts w = (r2, w2)" by fastforce
  obtain r3 w3 where a: "buildSetupCmdAudit E clean w = (r3, w3)" by fastforce
  have 1: "only_after (\<lambda>e. e = CallEnsureDirSync ?g) (\<lambda>e. e = CallNext)
             (calls_of (buildSetupCmdBuild E opts) w)
      \<and> (CallNext \<in> set (calls_of (buildSetupCmdBuild E opts) w) \<longrightarrow>
           ?g \<in> dirs (disk (world_after (buildSetupCmdBuild E opts) w)))"
    using buildSetupCmdBuild_spec[OF b] b
    by (intro each) (auto split: sum.splits)
  have 2: "only_after (\<lambda>e. e = CallEnsureDirSync ?g) (\<lambda>e. e = CallNext)
             (calls_of (buildSetupCmdServerStart E opts) w)
      \<and> (CallNext \<in> set (calls_of (buildSetupCmdServerStart E opts) w) \<longrightarrow>
           ?g \<in> dirs (disk (world_after (buildSetupCmdServerStart E opts) w)))"
    using buildSetupCmdServerStart_spec[OF s] s
    by (intro each) (auto split: sum.splits)
  have 3: "only_after (\<lambda>e. e = CallEnsureDirSync ?g) (\<lambda>e. e = CallNext)
             (calls_of (buildSetupCmdAudit E clean) w)
      \<and> (CallNext \<in> set (calls_of (buildSetupCmdAudit E clean) w) \<longrightarrow>
           ?g \<in> dirs (disk (world_after (buildSetupCmdAudit E clean) w)))"
    using buildSetupCmdAudit_spec[OF a] a
    by (auto simp: world_after_def split: sum.splits)
  have 4: "only_after (\<lambda>e. e = CallMkdirp (generatedPath root)) build_step
             (calls_of (build E this bopts) w)
        \<and> ((\<exists>e \<in> set (calls_of (build E this bopts) w). build_step e) \<longrightarrow>
             (\<exists>d'. mkdirs (generatedPath root) (disk w) = Inr d' \<and> generatedPath root \<in> dirs d'))"
    if t: "truthy (bo_rootPath bopts) = Some root" for root
  proof -
    obtain r w' where run: "build E this bopts w = (r, w')" by fastforce
    have "only_after (\<lambda>e. e = CallMkdirp (generatedPath root)) build_step
            (calls_of (build E this bopts) w)"
    proof (cases rule: build_calls_cases[of bopts E this w])
      case (absent e)
      with t show ?thesis by simp
    next
      case (plain root' usingTs)
      with t have "root' = root" by simp
      with only_after_prefix[OF plain(2)] show ?thesis
        by (simp add: build_head_def)
    next
      case (redirected root' usingTs p)
      with t have "root' = root" by simp
      with only_after_prefix[OF redirected(2)] show ?thesis
        by (simp add: build_head_def)
    qed
    with build_mkdirp_first[OF run t] show ?thesis by blast
  qed
  from 1 2 3 4 show ?thesis by blast
qed

theorem generated_directory_exists_first_witness:
  "CallNext \<in> set (calls_of (buildSetupCmdBuild sample_env sample_setup_options) sample_world)
   \<and> [''/site'', ''.tina'', ''__generated__''] \<notin> dirs (disk sample_world)
   \<and> [''/site'', ''.tina'', ''__generated__'']
        \<in> dirs (disk (world_after (buildSetupCmdBuild sample_env sample_setup_options) sample_world))
   \<and> truthy (bo_rootPath sample_build_options) = Some ''/site''
   \<and> (\<exists>e \<in> set (calls_of (build sample_env \<lparr>cb_database = 0\<rparr> sample_build_options) bare_world).
         build_step e)
   \<and> (\<exists>d'. mkdirs [''/site'', ''.tina'', ''__generated__''] (disk bare_world) = Inr d'
          \<and> [''/site'', ''.tina'', ''__generated__''] \<in> dirs d')"
proof -
  have t: "truthy (bo_rootPath sample_build_options) = Some ''/site''"
    by (simp add: truthy_def sample_build_options_def)
  have n: "CallNext \<in> set (calls_of (buildSetupCmdBuild sample_env sample_setup_options) sample_world)"
    using sample_setup_build by simp
  have s: "\<exists>e \<in> set (calls_of (build sample_env \<lparr>cb_database = 0\<rparr> sample_build_options) bare_world).
         build_step e"
    by (simp add: sample_build_calls)
  have g: "generatedPath ''/site'' = [''/site'', ''.tina'', ''__generated__'']"
    by (simp add: generatedPath_def path_join_def)
  have c: "ctx_rootPath (cmd_ctx sample_world) = ''/site''"
    by (simp add: sample_world_def sample_ctx_def)
  have e: "[''/site'', ''.tina'', ''__generated__''] \<notin> dirs (disk sample_world)"
    by (simp add: sample_world_def)
  note a = generated_directory_exists_first
    [where w = sample_world and E = sample_env and opts = sample_setup_options and clean = False
       and bopts = sample_build_options and this = "\<lparr>cb_database = 0\<rparr>"]
  note b = generated_directory_exists_first
    [where w = bare_world and E = sample_env and opts = sample_setup_options and clean = False
       and bopts = sample_build_options and this = "\<lparr>cb_database = 0\<rparr>"]
  from a n have 1: "generatedPath (ctx_rootPath (cmd_ctx sample_world))
      \<in> dirs (disk (world_after (buildSetupCmdBuild sample_env sample_setup_options) sample_world))"
    by blast
  from b t s have 2: "\<exists>d'. mkdirs (generatedPath ''/site'') (disk bare_world) = Inr d'
      \<and> generatedPath ''/site'' \<in> dirs d'"
    by blast
  from 1 2 t n s e show ?thesis
    unfolding g c by blast
qed

subsection \<open>The build commands\<close>

lemma getASTSchema_spec:
  "getASTSchema E d w = (r, w') \<Longrightarrow>
     trace w' = trace w @ [CallGetASTSchema] \<and> heap w' = heap w \<and> disk w' = disk w"
  by (auto simp: getASTSchema_def prims heap_def split: sum.splits prod.splits if_splits)

lemma genTypes_spec:
  "genTypes E a u n v w = (r, w') \<Longrightarrow> trace w' = trace w @ [CallGenTypes] \<and> heap w' = heap w"
  by (auto simp: genTypes_def prims heap_def split: sum.splits prod.splits)

lemma genClient_spec:
  "genClient E s u l p w = (r, w') \<Longrightarrow> trace w' = trace w @ [CallGenClient] \<and> heap w' = heap w"
  by (auto simp: genClient_def prims heap_def split: sum.splits prod.splits)

lemma viteBuild_spec:
  "viteBuild E l root b a w = (r, w') \<Longrightarrow> trace w' = trace w @ [CallViteBuild] \<and> heap w' = heap w"
  by (auto simp: viteBuild_def prims heap_def split: sum.splits prod.splits)

lemma emit_spec:
  "emit ev w = (r, w') \<Longrightarrow>
     trace w' = trace w @ [ev] \<and> heap w' = heap w \<and> disk w' = disk w \<and> r = Inr ()"
  by (auto simp: emit_def heap_def)

lemma genTypedClient_spec:
  assumes "genTypedClient E this u s n v l p w = (r, w')"
  shows "heap w' = heap w
    \<and> (\<exists>evs. trace w' = trace w @ evs \<and> prefix evs client_calls
          \<and> ((\<exists>x. r = Inr x) \<longrightarrow> evs = client_calls))"
  using assms
  apply (simp add: genTypedClient_def)
  apply (elim awaitE)
  by (auto dest!: getASTSchema_spec genTypes_spec genClient_spec simp: heap_def client_calls_def)

lemma buildAdmin_spec:
  assumes "buildAdmin E sch local root api w = (r, w')"
  shows "heap w' = heap w
    \<and> (\<exists>evs. trace w' = trace w @ evs \<and> prefix evs (admin_calls sch local)
          \<and> (r = Inr () \<longrightarrow> evs = admin_calls sch local))"
proof (cases "config_build sch")
  case None
  with assms show ?thesis
    by (simp add: buildAdmin_def admin_calls_def ret_def)
next
  case (Some b)
  show ?thesis
  proof (cases local)
    case True
    with Some assms have "await (emit (CallLoggerInfo ''Starting Tina asset server''))
        (\<lambda>_. viteBuild E local root b api) w = (r, w')"
      by (simp add: buildAdmin_def)
    then show ?thesis
      apply (elim awaitE)
      using Some True
      by (auto dest!: emit_spec viteBuild_spec simp: heap_def admin_calls_def)
  next
    case False
    with Some assms have "await (viteBuild E local root b api)
        (\<lambda>_. emit (CallLoggerInfo (CHR 0x0A # ''Done building static site''))) w = (r, w')"
      by (simp add: buildAdmin_def spin_def)
    then show ?thesis
      apply (elim awaitE)
      using Some False
      by (auto dest!: emit_spec viteBuild_spec simp: heap_def admin_calls_def)
  qed
qed

lemma buildCmdBuild_cases:
  assumes "buildCmdBuild E options w = (r, w')"
  obtains
    (no_builder) "ctx_builder (cmd_ctx w) = None" "w' = w" "\<exists>e. r = Inl e"
  | (build_failed) builder e where "ctx_builder (cmd_ctx w) = Some builder"
      "build E builder (build_args (cmd_ctx w) options) w = (Inl e, w')" "r = Inl e"
  | (build_ok) builder res w2 tail where "ctx_builder (cmd_ctx w) = Some builder"
      "build E builder (build_args (cmd_ctx w) options) w = (Inr res, w2)"
      "trace w' = trace w2 @ tail" "wiring w' = wiring w2"
      "prefix tail (client_calls @ admin_calls (schema res) (co_local options) @ [CallNext])"
      "r = Inr () \<longrightarrow> tail = client_calls @ admin_calls (schema res) (co_local options) @ [CallNext]"
      "r \<noteq> Inr () \<longrightarrow> CallNext \<notin> set tail"
proof (cases "ctx_builder (cmd_ctx w)")
  case None
  with assms have "w' = w \<and> (\<exists>e. r = Inl e)"
    by (auto simp: buildCmdBuild_def get_ctx_def defined_def await_def throw_def)
  with None no_builder show ?thesis by blast
next
  case (Some builder)
  with assms have run: "await (build E builder (build_args (cmd_ctx w) options)) (\<lambda>res.
     await (set_ctx (\<lambda>c. c\<lparr>ctx_schema := Some (schema res)\<rparr>)) (\<lambda>_.
     await (genTypedClient E builder (ctx_usingTs (cmd_ctx w)) (schema res) (co_noSDK options)
              (co_verbose options) (co_local options) (co_port options)) (\<lambda>apiUrl.
     await (set_ctx (\<lambda>c. c\<lparr>ctx_apiUrl := Some apiUrl\<rparr>)) (\<lambda>_.
     await (buildAdmin E (schema res) (co_local options) (ctx_rootPath (cmd_ctx w)) apiUrl) (\<lambda>_.
     next_cb))))) w = (r, w')"
    by (simp add: buildCmdBuild_def get_ctx_def defined_def await_def ret_def)
  from run show ?thesis
  proof (cases rule: awaitE)
    case (fail e)
    with Some build_failed show ?thesis by blast
  next
    case (go res w2)
    have nx: "CallNext \<notin> set client_calls"
      "CallNext \<notin> set (admin_calls (schema res) (co_local options))"
      by (auto simp: client_calls_def admin_calls_def split: option.splits)
    from go(2) have "\<exists>tail. trace w' = trace w2 @ tail \<and> wiring w' = wiring w2
        \<and> prefix tail (client_calls @ admin_calls (schema res) (co_local options) @ [CallNext])
        \<and> (r = Inr () \<longrightarrow> tail = client_calls @ admin_calls (schema res) (co_local options) @ [CallNext])
        \<and> (r \<noteq> Inr () \<longrightarrow> CallNext \<notin> set tail)"
      apply (elim awaitE)
      using nx
          apply (auto dest!: genTypedClient_spec buildAdmin_spec
            simp: set_ctx_def next_cb_def emit_def heap_def wiring_def)
       apply (blast dest: set_mono_prefix)+
      done
    with Some go(1) build_ok show ?thesis by blast
  qed
qed

subsection \<open>The audit command\<close>


lemma map_eq_nth: "map f xs = map f ys \<Longrightarrow> i < length xs \<Longrightarrow> f (xs ! i) = f (ys ! i)"
  by (metis length_map nth_map)

lemma wiring_bridge_kind:
  assumes "wiring w' = wiring w" "d < length (databases w)"
    "db_bridge (databases w ! d) < length (bridges w)"
  shows "db_bridge (databases w' ! d) = db_bridge (databases w ! d)
     \<and> db_store (databases w' ! d) = db_store (databases w ! d)
     \<and> kind (bridges w' ! db_bridge (databases w' ! d)) = kind (bridges w ! db_bridge (databases w ! d))"
proof -
  from assms(1) have m: "map (\<lambda>d. (db_store d, db_bridge d)) (databases w')
       = map (\<lambda>d. (db_store d, db_bridge d)) (databases w)"
    and k: "map (\<lambda>b. (kind b, bridge_rootPath b)) (bridges w')
       = map (\<lambda>b. (kind b, bridge_rootPath b)) (bridges w)"
    by (simp_all add: wiring_def)
  from m have ld: "length (databases w') = length (databases w)"
    by (rule map_eq_imp_length_eq)
  from k have lb: "length (bridges w') = length (bridges w)"
    by (rule map_eq_imp_length_eq)
  from map_eq_nth[OF m, of d] assms(2) ld
  have 1: "db_store (databases w' ! d) = db_store (databases w ! d)"
    "db_bridge (databases w' ! d) = db_bridge (databases w ! d)"
    by simp_all
  from map_eq_nth[OF k, of "db_bridge (databases w ! d)"] assms(3) lb
  have "kind (bridges w' ! db_bridge (databases w ! d)) = kind (bridges w ! db_bridge (databases w ! d))"
    by simp
  with 1 show ?thesis by simp
qed

lemma indexContent_spec:
  "indexContent E d sch w = (r, w') \<Longrightarrow>
     trace w' = trace w @ [CallIndexContent] \<and> cmd_ctx w' = cmd_ctx w
     \<and> bridges w' = bridges w \<and> databases w' = databases w"
  by (auto simp: indexContent_def prims split: sum.splits prod.splits if_splits)


lemma auditCmdBuild_cases:
  assumes "auditCmdBuild E options w = (r, w')"
  obtains
    (no_builder) "ctx_builder (cmd_ctx w) = None" "w' = w" "\<exists>e. r = Inl e"
  | (build_failed) builder e where "ctx_builder (cmd_ctx w) = Some builder"
      "build E builder ((build_args (cmd_ctx w) options)\<lparr>bo_verbose := Some True\<rparr>) w = (Inl e, w')"
      "r = Inl e"
  | (build_ok) builder res w2 tail where "ctx_builder (cmd_ctx w) = Some builder"
      "build E builder ((build_args (cmd_ctx w) options)\<lparr>bo_verbose := Some True\<rparr>) w = (Inr res, w2)"
      "trace w' = trace w2 @ tail"
      "prefix tail [CallIndexContent, CallNext]"
      "r = Inr () \<longrightarrow> tail = [CallIndexContent, CallNext]"
      "r \<noteq> Inr () \<longrightarrow> CallNext \<notin> set tail"
proof (cases "ctx_builder (cmd_ctx w)")
  case None
  with assms have "w' = w \<and> (\<exists>e. r = Inl e)"
    by (auto simp: auditCmdBuild_def get_ctx_def defined_def await_def throw_def)
  with None no_builder show ?thesis by blast
next
  case (Some builder)
  with assms have run:
    "await (build E builder ((build_args (cmd_ctx w) options)\<lparr>bo_verbose := Some True\<rparr>)) (\<lambda>res.
     await (spin (await (defined (ctx_database (cmd_ctx w))) (\<lambda>database.
                  indexContent E database (graphQLSchema res, tinaSchema res)))) (\<lambda>_.
     next_cb)) w = (r, w')"
    by (simp add: auditCmdBuild_def get_ctx_def defined_def await_def ret_def)
  from run show ?thesis
  proof (cases rule: awaitE)
    case (fail e)
    with Some build_failed show ?thesis by blast
  next
    case (go res w2)
    from go(2) have "\<exists>tail. trace w' = trace w2 @ tail
        \<and> prefix tail [CallIndexContent, CallNext]
        \<and> (r = Inr () \<longrightarrow> tail = [CallIndexContent, CallNext])
        \<and> (r \<noteq> Inr () \<longrightarrow> CallNext \<notin> set tail)"
      apply (simp add: spin_def)
      apply (elim awaitE)
      by (auto dest!: indexContent_spec simp: defined_def throw_def ret_def next_cb_def emit_def
               split: option.splits)
    with Some go(1) build_ok show ?thesis by blast
  qed
qed


subsection \<open>Calls of a build, whatever its outcome\<close>

lemma build_calls_all:
  assumes "\<And>rp. P (CallIsProjectTs rp)" "P CallClearCache" "\<And>g. P (CallMkdirp g)"
    "P CallStoreClose" "\<And>g u b. P (CallResetGeneratedFolder g u b)" "P CallStoreOpen"
    "\<And>v d r. P (CallCompileSchema v d r)" "\<And>p. P (CallAddOutputPath p)"
    "\<And>r. P (CallBuildSchema r)"
  shows "\<forall>e \<in> set (calls_of (build E this opts) w). P e"
proof (cases rule: build_calls_cases[of opts E this w])
  case (absent e)
  with assms show ?thesis by simp
next
  case (plain root usingTs)
  from set_mono_prefix[OF plain(2)] assms show ?thesis
    by (auto simp: build_head_def)
next
  case (redirected root usingTs p)
  from set_mono_prefix[OF redirected(2)] assms show ?thesis
    by (auto simp: build_head_def)
qed

lemma build_no_index: "CallIndexContent \<notin> set (calls_of (build E this opts) w)"
  using build_calls_all[of "\<lambda>e. e \<noteq> CallIndexContent" E this opts w] by auto

subsection \<open>The calls of a build, call by call\<close>

lemma isProjectTs_exact:
  "isProjectTs E rp w = (r, w') \<Longrightarrow>
     trace w' = trace w @ [CallIsProjectTs rp] \<and> heap w' = heap w \<and> disk w' = disk w
     \<and> ext_isProjectTs E rp (disk w) = r"
  by (auto simp: isProjectTs_def prims heap_def split: sum.splits prod.splits)

lemma resetGeneratedFolder_exact:
  "resetGeneratedFolder E g u b w = (r, w') \<Longrightarrow>
     trace w' = trace w @ [CallResetGeneratedFolder g u b] \<and> heap w' = heap w
     \<and> ext_resetGeneratedFolder E g u b (disk w) = (r, disk w')"
  by (auto simp: resetGeneratedFolder_def prims heap_def split: sum.splits prod.splits)

lemma compileSchema_exact:
  "compileSchema E v d root w = (r, w') \<Longrightarrow>
     trace w' = trace w @ [CallCompileSchema v d root] \<and> heap w' = heap w
     \<and> ext_compileSchema E v d root (disk w) = (r, disk w')"
  by (auto simp: compileSchema_def prims heap_def split: sum.splits prod.splits)

lemma addOutputPath_if_configured_exact:
  "addOutputPath_if_configured E d s w = (r, w') \<Longrightarrow>
     wiring w' = wiring w \<and> cmd_ctx w' = cmd_ctx w \<and> disk w' = disk w
     \<and> databases w' = databases w \<and> stores w' = stores w
     \<and> (r = Inr () \<longrightarrow>
        trace w' = trace w @ output_calls E (kind (bridges w ! db_bridge (databases w ! d))) s
        \<and> d < length (databases w) \<and> db_bridge (databases w ! d) < length (bridges w))
     \<and> (r \<noteq> Inr () \<longrightarrow> trace w' = trace w)"
  by (auto simp: addOutputPath_if_configured_def addOutputPath_def prims output_calls_def
         wiring_def map_update_same
           split: sum.splits prod.splits if_splits option.splits)

lemma kind_of_wiring:
  assumes "wiring w' = wiring w" "d < length (databases w')"
    "db_bridge (databases w' ! d) < length (bridges w')"
  shows "kind (bridges w' ! db_bridge (databases w' ! d)) = kind (bridges w ! db_bridge (databases w ! d))"
proof -
  from wiring_bridge_kind[where w' = w and w = w' and d = d, OF assms(1)[symmetric] assms(2,3)]
  have "kind (bridges w ! db_bridge (databases w ! d)) = kind (bridges w' ! db_bridge (databases w' ! d))"
    by (elim conjE)
  then show ?thesis by (rule sym)
qed

lemma clearCache_exact:
  "clearCache d w = (r, w') \<Longrightarrow>
     trace w' = trace w @ [CallClearCache] \<and> wiring w' = wiring w \<and> cmd_ctx w' = cmd_ctx w
     \<and> disk w' = disk w \<and> stores w' = stores w \<and> bridges w' = bridges w
     \<and> (\<forall>i. db_bridge (databases w' ! i) = db_bridge (databases w ! i))"
  by (auto simp: clearCache_def prims wiring_def map_update_same nth_list_update
           split: sum.splits prod.splits if_splits)

lemmas build_exact_specs = isProjectTs_exact clearCache_exact fs_mkdirp_spec store_close_spec
  store_open_spec resetGeneratedFolder_exact compileSchema_exact buildSchema_spec
  addOutputPath_if_configured_exact

lemma build_returns:
  assumes run: "build E this opts w = (Inr res, w')"
  shows "\<exists>root usingTs. truthy (bo_rootPath opts) = Some root
     \<and> ext_isProjectTs E (bo_rootPath opts) (disk w) = Inr usingTs
     \<and> compile_result E opts (disk w) = Some (Inr (schema res))
     \<and> trace w' = trace w @ build_head opts root usingTs
          @ output_calls E (builder_bridge_kind w this) (schema res) @ [CallBuildSchema root]"
  using run
  apply (simp add: build_def)
  apply (erule awaitE)
   apply simp
  apply (cases "truthy (bo_rootPath opts)")
   apply (simp add: throw_def)
  apply simp
  apply (elim awaitE)
  by (auto dest!: build_exact_specs
        simp: build_head_def ret_def compile_result_def builder_bridge_kind_def heap_def
        split: prod.splits)

lemma build_prefix:
  assumes run: "build E this opts w = (r, w')"
  shows "prefix (calls_of (build E this opts) w)
           (build_calls E opts (builder_bridge_kind w this) (disk w))"
  unfolding calls_of_eq[of "build E this opts" w r w', OF run]
  using run
  apply (simp add: build_def)
  apply (erule awaitE)
   apply (auto dest!: build_exact_specs simp: build_calls_def split: option.splits)[1]
  apply (cases "truthy (bo_rootPath opts)")
   apply (auto dest!: build_exact_specs simp: throw_def build_calls_def)[1]
  apply simp
  apply (elim awaitE)
  by (auto dest!: build_exact_specs
        simp: build_head_def build_calls_def ret_def compile_result_def builder_bridge_kind_def heap_def
        split: prod.splits)

lemma build_compile_outcome:
  assumes run: "build E this opts w = (r, w')"
    and c: "list_ex is_compileSchema (calls_of (build E this opts) w)"
  shows "\<exists>root usingTs x. truthy (bo_rootPath opts) = Some root
     \<and> ext_isProjectTs E (bo_rootPath opts) (disk w) = Inr usingTs
     \<and> compile_result E opts (disk w) = Some x
     \<and> prefix (build_head opts root usingTs) (calls_of (build E this opts) w)
     \<and> (\<forall>e. x = Inl e \<longrightarrow> r = Inl e \<and> calls_of (build E this opts) w = build_head opts root usingTs)"
  using c unfolding calls_of_eq[of "build E this opts" w r w', OF run]
  using run
  apply (simp add: build_def)
  apply (erule awaitE)
   apply (auto dest!: build_exact_specs)[1]
  apply (cases "truthy (bo_rootPath opts)")
   apply (auto dest!: build_exact_specs simp: throw_def)[1]
  apply simp
  apply (elim awaitE)
  by (auto dest!: build_exact_specs
        simp: build_head_def ret_def compile_result_def heap_def
        split: prod.splits)

lemma build_compile_failed:
  assumes run: "build E this opts w = (r, w')"
    and h: "compile_result E opts (disk w) = Some (Inl e0)"
  shows "(\<exists>e. r = Inl e)
     \<and> \<not> list_ex after_compile (calls_of (build E this opts) w)
     \<and> (list_ex is_compileSchema (calls_of (build E this opts) w) \<longrightarrow>
          r = Inl e0
          \<and> (\<exists>root usingTs. truthy (bo_rootPath opts) = Some root
                \<and> ext_isProjectTs E (bo_rootPath opts) (disk w) = Inr usingTs
                \<and> calls_of (build E this opts) w = build_head opts root usingTs))"
proof -
  have 1: "\<exists>e. r = Inl e"
  proof (cases r)
    case (Inl e)
    then show ?thesis by simp
  next
    case (Inr res)
    with run build_returns[of E this opts w res w'] h show ?thesis by auto
  qed
  have "\<forall>e \<in> set (build_calls E opts (builder_bridge_kind w this) (disk w)). \<not> after_compile e"
    using h by (auto simp: build_calls_def build_head_def split: option.splits sum.splits)
  with set_mono_prefix[OF build_prefix[OF run]]
  have 2: "\<not> list_ex after_compile (calls_of (build E this opts) w)"
    by (auto simp: list_ex_iff)
  have 3: "r = Inl e0
          \<and> (\<exists>root usingTs. truthy (bo_rootPath opts) = Some root
                \<and> ext_isProjectTs E (bo_rootPath opts) (disk w) = Inr usingTs
                \<and> calls_of (build E this opts) w = build_head opts root usingTs)"
    if c: "list_ex is_compileSchema (calls_of (build E this opts) w)"
    using build_compile_outcome[OF run c] h by auto
  from 1 2 3 show ?thesis by blast
qed

lemma result_run: "result_of m w = r \<Longrightarrow> m w = (r, snd (m w))"
  by (simp add: result_of_def prod_eq_iff)

lemma command_calls:
  assumes run: "cmd w = (r, w')" and bld: "build E builder A w = (rb, w2)"
    and t: "trace w' = trace w2 @ tail"
  shows "calls_of cmd w = calls_of (build E builder A) w @ tail"
proof -
  from build_extends[OF bld] t
  have "trace w' = trace w @ (calls_of (build E builder A) w @ tail)" by simp
  from calls_of_app[where m = cmd and w = w, OF run this] show ?thesis .
qed

lemma genTypedClient_first:
  assumes "genTypedClient E this u s n v l p w = (r, w')"
  shows "\<exists>evs. trace w' = trace w @ CallGetASTSchema # evs"
  using assms
  apply (simp add: genTypedClient_def)
  apply (elim awaitE)
  by (auto dest!: getASTSchema_spec genTypes_spec genClient_spec)

lemma buildCmdBuild_client_first:
  assumes "buildCmdBuild E options w = (r, w')" "ctx_builder (cmd_ctx w) = Some builder"
    "build E builder (build_args (cmd_ctx w) options) w = (Inr res, w2)"
  shows "\<exists>rest. trace w' = trace w2 @ CallGetASTSchema # rest"
proof -
  from assms have "await (set_ctx (\<lambda>c. c\<lparr>ctx_schema := Some (schema res)\<rparr>)) (\<lambda>_.
     await (genTypedClient E builder (ctx_usingTs (cmd_ctx w)) (schema res) (co_noSDK options)
              (co_verbose options) (co_local options) (co_port options)) (\<lambda>apiUrl.
     await (set_ctx (\<lambda>c. c\<lparr>ctx_apiUrl := Some apiUrl\<rparr>)) (\<lambda>_.
     await (buildAdmin E (schema res) (co_local options) (ctx_rootPath (cmd_ctx w)) apiUrl) (\<lambda>_.
     next_cb)))) w2 = (r, w')"
    by (simp add: buildCmdBuild_def get_ctx_def defined_def await_def ret_def)
  then show ?thesis
    apply (elim awaitE)
    by (auto dest!: genTypedClient_first buildAdmin_spec
          simp: set_ctx_def next_cb_def emit_def)
qed

subsection \<open>The content source during a build\<close>

lemma mkdirs_content: "mkdirs p d = Inr d' \<Longrightarrow> content d' = content d"
  by (auto simp: mkdirs_def content_def split: if_splits)













subsection \<open>Claims on the order of the stages\<close>





lemma sample_stale_builds:
  "ctx_builder (cmd_ctx stale_world) = Some \<lparr>cb_database = 0\<rparr>
   \<and> result_of (build sample_env \<lparr>cb_database = 0\<rparr> (build_args (cmd_ctx stale_world) sample_options))
        stale_world
      = Inr \<lparr>schema = sample_schema, graphQLSchema = ''graphql'', tinaSchema = ''tina''\<rparr>
   \<and> result_of (build sample_env \<lparr>cb_database = 0\<rparr>
          ((build_args (cmd_ctx stale_world) sample_options)\<lparr>bo_verbose := Some True\<rparr>)) stale_world
      = Inr \<lparr>schema = sample_schema, graphQLSchema = ''graphql'', tinaSchema = ''tina''\<rparr>
   \<and> result_of (auditCmdBuild sample_env sample_options) stale_world = Inr ()
   \<and> result_of (buildCmdBuild sample_env sample_options) stale_world = Inr ()"
  by (simp add: run_defs)



subsection \<open>Claims on indexing and on failure\<close>

lemma sample_build_cmd:
  "result_of (buildCmdBuild sample_env sample_options) stale_world = Inr ()
   \<and> calls_of (buildCmdBuild sample_env sample_options) stale_world
      = [CallIsProjectTs (Some ''/site''), CallClearCache,
         CallMkdirp [''/site'', ''.tina'', ''__generated__''], CallStoreClose,
         CallResetGeneratedFolder [''/site'', ''.tina'', ''__generated__''] True True,
         CallStoreOpen, CallCompileSchema None None ''/site'',
         CallBuildSchema ''/site'', CallGetASTSchema, CallGenTypes, CallGenClient, CallNext]
   \<and> records (stores (world_after (buildCmdBuild sample_env sample_options) stale_world) ! 0)
        [''/site'', ''posts/a.md''] = Some ''old''"
  by (simp add: run_defs)

text \<open>
  C5, as stated, fails: on a project whose content changed after it was indexed (the Store
  holds the Record of the old content) the one-shot build command returns, having generated
  the client, without any call of \<^verbatim>\<open>Database.indexContent\<close>, and the Store still holds the
  old Record.
\<close>

theorem build_skips_reindex_counterexample:
  "files (disk stale_world) [''/site'', ''posts/a.md''] = Some ''new''
   \<and> records (stores stale_world ! 0) [''/site'', ''posts/a.md''] = Some ''old''
   \<and> result_of (buildCmdBuild sample_env sample_options) stale_world = Inr ()
   \<and> CallGenClient \<in> set (calls_of (buildCmdBuild sample_env sample_options) stale_world)
   \<and> CallIndexContent \<notin> set (calls_of (buildCmdBuild sample_env sample_options) stale_world)
   \<and> records (stores (world_after (buildCmdBuild sample_env sample_options) stale_world) ! 0)
        [''/site'', ''posts/a.md''] = Some ''old''"
  by (simp add: sample_build_cmd) (simp add: stale_world_def)

text \<open>
  C5, amended. No run of the one-shot build command calls \<^verbatim>\<open>Database.indexContent\<close>,
  whether the content changed or not. When \<^verbatim>\<open>ConfigBuilder.build\<close> has returned, the next
  call of the command is \<^verbatim>\<open>getASTSchema\<close>, the first call of the client generation; and a
  run of the command that returns has made, right after the calls of
  \<^verbatim>\<open>ConfigBuilder.build\<close>, the calls \<^verbatim>\<open>getASTSchema\<close>, \<^verbatim>\<open>genTypes\<close>, \<^verbatim>\<open>genClient\<close>, those of
  \<^verbatim>\<open>buildAdmin\<close> and \<^verbatim>\<open>next\<close>.
\<close>

theorem build_command_never_indexes:
  "CallIndexContent \<notin> set (calls_of (buildCmdBuild E options) w)
   \<and> (\<forall>builder res.
         ctx_builder (cmd_ctx w) = Some builder
         \<and> result_of (build E builder (build_args (cmd_ctx w) options)) w = Inr res
         \<longrightarrow>
           (\<exists>rest. calls_of (buildCmdBuild E options) w
                      = calls_of (build E builder (build_args (cmd_ctx w) options)) w
                        @ CallGetASTSchema # rest)
           \<and> (result_of (buildCmdBuild E options) w = Inr () \<longrightarrow>
                calls_of (buildCmdBuild E options) w
                  = calls_of (build E builder (build_args (cmd_ctx w) options)) w
                    @ client_calls @ admin_calls (schema res) (co_local options) @ [CallNext]))"
proof -
  obtain r w' where run: "buildCmdBuild E options w = (r, w')" by fastforce
  have 1: "CallIndexContent \<notin> set (calls_of (buildCmdBuild E options) w)"
    using run
  proof (cases rule: buildCmdBuild_cases)
    case no_builder
    with run show ?thesis by (simp add: calls_of_def)
  next
    case (build_failed builder e)
    with run have "calls_of (buildCmdBuild E options) w
        = calls_of (build E builder (build_args (cmd_ctx w) options)) w"
      by (simp add: calls_of_def)
    with build_no_index show ?thesis by simp
  next
    case (build_ok builder res w2 tail)
    from command_calls[where cmd = "buildCmdBuild E options" and w = w, OF run build_ok(2,3)]
    have c: "calls_of (buildCmdBuild E options) w
        = calls_of (build E builder (build_args (cmd_ctx w) options)) w @ tail" .
    from set_mono_prefix[OF build_ok(5)] have "CallIndexContent \<notin> set tail"
      by (auto simp: client_calls_def admin_calls_def split: option.splits if_splits)
    with c build_no_index show ?thesis by simp
  qed
  have 2: "(\<exists>rest. calls_of (buildCmdBuild E options) w
                      = calls_of (build E builder (build_args (cmd_ctx w) options)) w
                        @ CallGetASTSchema # rest)
           \<and> (result_of (buildCmdBuild E options) w = Inr () \<longrightarrow>
                calls_of (buildCmdBuild E options) w
                  = calls_of (build E builder (build_args (cmd_ctx w) options)) w
                    @ client_calls @ admin_calls (schema res) (co_local options) @ [CallNext])"
    if b: "ctx_builder (cmd_ctx w) = Some builder"
      and ok: "result_of (build E builder (build_args (cmd_ctx w) options)) w = Inr res"
    for builder res
  proof -
    let ?A = "build_args (cmd_ctx w) options"
    note bld = result_run[OF ok]
    from buildCmdBuild_client_first[OF run b bld] obtain rest where
      t: "trace w' = trace (snd (build E builder ?A w)) @ CallGetASTSchema # rest"
      by blast
    from command_calls[where cmd = "buildCmdBuild E options" and w = w, OF run bld t]
    have first: "calls_of (buildCmdBuild E options) w
        = calls_of (build E builder ?A) w @ CallGetASTSchema # rest" .
    have "calls_of (buildCmdBuild E options) w
             = calls_of (build E builder ?A) w
               @ client_calls @ admin_calls (schema res) (co_local options) @ [CallNext]"
      if "r = Inr ()"
      using run
    proof (cases rule: buildCmdBuild_cases)
      case no_builder
      with b show ?thesis by simp
    next
      case (build_failed builder' e)
      with that show ?thesis by simp
    next
      case (build_ok builder' res' w2 tail)
      with b bld have e: "res' = res" "w2 = snd (build E builder ?A w)" "builder' = builder"
        by simp_all
      from build_ok(3,6) that e
      have "trace w' = trace (snd (build E builder ?A w))
          @ (client_calls @ admin_calls (schema res) (co_local options) @ [CallNext])"
        by simp
      from command_calls[where cmd = "buildCmdBuild E options" and w = w, OF run bld this]
      show ?thesis .
    qed
    with first run show ?thesis by (auto simp: result_of_def)
  qed
  from 1 2 show ?thesis by blast
qed

theorem build_command_never_indexes_witness:
  "records (stores stale_world ! 0) [''/site'', ''posts/a.md''] \<noteq> files (disk stale_world) [''/site'', ''posts/a.md'']
   \<and> ctx_builder (cmd_ctx stale_world) = Some \<lparr>cb_database = 0\<rparr>
   \<and> result_of (buildCmdBuild sample_env sample_options) stale_world = Inr ()
   \<and> CallIndexContent \<notin> set (calls_of (buildCmdBuild sample_env sample_options) stale_world)
   \<and> calls_of (buildCmdBuild sample_env sample_options) stale_world
      = calls_of (build sample_env \<lparr>cb_database = 0\<rparr>
           (build_args (cmd_ctx stale_world) sample_options)) stale_world
        @ [CallGetASTSchema, CallGenTypes, CallGenClient, CallNext]"
proof -
  have a: "admin_calls sample_schema (co_local sample_options) = []"
    by (simp add: admin_calls_def config_build_def sample_schema_def)
  have s: "records (stores stale_world ! 0) [''/site'', ''posts/a.md'']
      \<noteq> files (disk stale_world) [''/site'', ''posts/a.md'']"
    by (simp add: stale_world_def)
  note t = build_command_never_indexes[of sample_env sample_options stale_world]
  from t have i: "CallIndexContent \<notin> set (calls_of (buildCmdBuild sample_env sample_options) stale_world)"
    by (rule conjunct1)
  from t sample_stale_builds
  have c: "calls_of (buildCmdBuild sample_env sample_options) stale_world
      = calls_of (build sample_env \<lparr>cb_database = 0\<rparr>
           (build_args (cmd_ctx stale_world) sample_options)) stale_world
        @ client_calls @ admin_calls sample_schema (co_local sample_options) @ [CallNext]"
    by fastforce
  have "client_calls @ admin_calls sample_schema (co_local sample_options) @ [CallNext]
      = [CallGetASTSchema, CallGenTypes, CallGenClient, CallNext]"
    by (simp add: a client_calls_def)
  with c have c': "calls_of (buildCmdBuild sample_env sample_options) stale_world
      = calls_of (build sample_env \<lparr>cb_database = 0\<rparr>
           (build_args (cmd_ctx stale_world) sample_options)) stale_world
        @ [CallGetASTSchema, CallGenTypes, CallGenClient, CallNext]"
    by simp
  from s i c' sample_stale_builds show ?thesis
    by blast
qed

text \<open>
  C2, as stated, fails: a build whose schema compilation fails with \<^verbatim>\<open>SchemaInvalid\<close> has
  already created the generated-artifacts directory (and called \<^verbatim>\<open>resetGeneratedFolder\<close> on
  it), so the directory is not in the state it had before the build; and it has already
  closed and reopened the Store, so a Store that an interrupted build had left closed is
  open afterwards.
\<close>

theorem schema_failure_counterexample:
  "result_of (build invalid_schema_env \<lparr>cb_database = 0\<rparr> sample_build_options) bare_world
     = Inl SchemaInvalid
   \<and> generatedPath ''/site'' \<notin> dirs (disk bare_world)
   \<and> generatedPath ''/site''
        \<in> dirs (disk (world_after (build invalid_schema_env \<lparr>cb_database = 0\<rparr> sample_build_options)
                   bare_world))
   \<and> disk (world_after (build invalid_schema_env \<lparr>cb_database = 0\<rparr> sample_build_options) bare_world)
        \<noteq> disk bare_world
   \<and> result_of (build invalid_schema_env \<lparr>cb_database = 0\<rparr> sample_build_options) closed_world
     = Inl SchemaInvalid
   \<and> \<not> opened (stores closed_world ! 0)
   \<and> opened (stores (world_after (build invalid_schema_env \<lparr>cb_database = 0\<rparr> sample_build_options)
                 closed_world) ! 0)
   \<and> stores (world_after (build invalid_schema_env \<lparr>cb_database = 0\<rparr> sample_build_options)
                 closed_world) \<noteq> stores closed_world"
proof -
  have g: "generatedPath ''/site'' = [''/site'', ''.tina'', ''__generated__'']"
    by (simp add: generatedPath_def path_join_def)
  have a: "result_of (build invalid_schema_env \<lparr>cb_database = 0\<rparr> sample_build_options) bare_world
     = Inl SchemaInvalid
   \<and> dirs (disk bare_world) = {}
   \<and> [''/site'', ''.tina'', ''__generated__'']
        \<in> dirs (disk (world_after (build invalid_schema_env \<lparr>cb_database = 0\<rparr> sample_build_options)
                   bare_world))"
    by (simp add: run_defs)
  have b: "result_of (build invalid_schema_env \<lparr>cb_database = 0\<rparr> sample_build_options) closed_world
     = Inl SchemaInvalid
   \<and> \<not> opened (stores closed_world ! 0)
   \<and> opened (stores (world_after (build invalid_schema_env \<lparr>cb_database = 0\<rparr> sample_build_options)
                 closed_world) ! 0)"
    by (simp add: run_defs_ext)
  from a b show ?thesis
    unfolding g by auto
qed

text \<open>
  C2, amended. Take a build whose call of \<^verbatim>\<open>compileSchema\<close>, on the disk on which the build
  makes it, fails with \<^verbatim>\<open>SchemaInvalid\<close>. Then \<^verbatim>\<open>ConfigBuilder.build\<close>, the one-shot build
  command and the audit command all fail, and none of them makes a call that comes after the
  compilation (\<^verbatim>\<open>addOutputPath\<close>, \<^verbatim>\<open>buildSchema\<close>, \<^verbatim>\<open>indexContent\<close>, the client generation,
  \<^verbatim>\<open>buildAdmin\<close>, \<^verbatim>\<open>next\<close>); a run that gets to the call of \<^verbatim>\<open>compileSchema\<close> fails with
  \<^verbatim>\<open>SchemaInvalid\<close>, and that call is its last one. The generated-artifacts directory has by
  then been created and reset and the Store closed and reopened: neither is promised to be
  as before.
\<close>

theorem schema_failure_halts_build:
  "(compile_result E opts (disk w) = Some (Inl SchemaInvalid) \<longrightarrow>
      (\<exists>e. result_of (build E this opts) w = Inl e)
      \<and> \<not> list_ex after_compile (calls_of (build E this opts) w)
      \<and> (list_ex is_compileSchema (calls_of (build E this opts) w) \<longrightarrow>
           result_of (build E this opts) w = Inl SchemaInvalid
           \<and> (\<exists>root usingTs. calls_of (build E this opts) w = build_head opts root usingTs)))
   \<and> (compile_result E (build_args (cmd_ctx w) options) (disk w) = Some (Inl SchemaInvalid) \<longrightarrow>
      (\<exists>e. result_of (buildCmdBuild E options) w = Inl e)
      \<and> \<not> list_ex after_compile (calls_of (buildCmdBuild E options) w)
      \<and> (list_ex is_compileSchema (calls_of (buildCmdBuild E options) w) \<longrightarrow>
           result_of (buildCmdBuild E options) w = Inl SchemaInvalid
           \<and> (\<exists>root usingTs. calls_of (buildCmdBuild E options) w
                  = build_head (build_args (cmd_ctx w) options) root usingTs)))
   \<and> (compile_result E ((build_args (cmd_ctx w) options)\<lparr>bo_verbose := Some True\<rparr>) (disk w)
         = Some (Inl SchemaInvalid) \<longrightarrow>
      (\<exists>e. result_of (auditCmdBuild E options) w = Inl e)
      \<and> \<not> list_ex after_compile (calls_of (auditCmdBuild E options) w)
      \<and> (list_ex is_compileSchema (calls_of (auditCmdBuild E options) w) \<longrightarrow>
           result_of (auditCmdBuild E options) w = Inl SchemaInvalid
           \<and> (\<exists>root usingTs. calls_of (auditCmdBuild E options) w
                  = build_head ((build_args (cmd_ctx w) options)\<lparr>bo_verbose := Some True\<rparr>) root usingTs)))"
proof -
  have 1: "(\<exists>e. result_of (build E b a) w = Inl e)
      \<and> \<not> list_ex after_compile (calls_of (build E b a) w)
      \<and> (list_ex is_compileSchema (calls_of (build E b a) w) \<longrightarrow>
           result_of (build E b a) w = Inl SchemaInvalid
           \<and> (\<exists>root usingTs. calls_of (build E b a) w = build_head a root usingTs))"
    if h: "compile_result E a (disk w) = Some (Inl SchemaInvalid)" for b a
  proof -
    obtain r w' where run: "build E b a w = (r, w')" by fastforce
    from build_compile_failed[OF run h] run show ?thesis
      by (auto simp: result_of_def)
  qed
  have 2: "(\<exists>e. result_of (buildCmdBuild E options) w = Inl e)
      \<and> \<not> list_ex after_compile (calls_of (buildCmdBuild E options) w)
      \<and> (list_ex is_compileSchema (calls_of (buildCmdBuild E options) w) \<longrightarrow>
           result_of (buildCmdBuild E options) w = Inl SchemaInvalid
           \<and> (\<exists>root usingTs. calls_of (buildCmdBuild E options) w
                  = build_head (build_args (cmd_ctx w) options) root usingTs))"
    if h: "compile_result E (build_args (cmd_ctx w) options) (disk w) = Some (Inl SchemaInvalid)"
  proof -
    obtain r w' where run: "buildCmdBuild E options w = (r, w')" by fastforce
    from run show ?thesis
    proof (cases rule: buildCmdBuild_cases)
      case no_builder
      with run show ?thesis by (auto simp: calls_of_def result_of_def)
    next
      case (build_failed builder e)
      with run 1[OF h, of builder] show ?thesis
        by (simp add: calls_of_def result_of_def)
    next
      case (build_ok builder res w2 tail)
      with 1[OF h, of builder] show ?thesis
        by (simp add: result_of_def)
    qed
  qed
  have 3: "(\<exists>e. result_of (auditCmdBuild E options) w = Inl e)
      \<and> \<not> list_ex after_compile (calls_of (auditCmdBuild E options) w)
      \<and> (list_ex is_compileSchema (calls_of (auditCmdBuild E options) w) \<longrightarrow>
           result_of (auditCmdBuild E options) w = Inl SchemaInvalid
           \<and> (\<exists>root usingTs. calls_of (auditCmdBuild E options) w
                  = build_head ((build_args (cmd_ctx w) options)\<lparr>bo_verbose := Some True\<rparr>) root usingTs))"
    if h: "compile_result E ((build_args (cmd_ctx w) options)\<lparr>bo_verbose := Some True\<rparr>) (disk w)
         = Some (Inl SchemaInvalid)"
  proof -
    obtain r w' where run: "auditCmdBuild E options w = (r, w')" by fastforce
    from run show ?thesis
    proof (cases rule: auditCmdBuild_cases)
      case no_builder
      with run show ?thesis by (auto simp: calls_of_def result_of_def)
    next
      case (build_failed builder e)
      with run 1[OF h, of builder] show ?thesis
        by (simp add: calls_of_def result_of_def)
    next
      case (build_ok builder res w2 tail)
      with 1[OF h, of builder] show ?thesis
        by (simp add: result_of_def)
    qed
  qed
  from 1[of opts this] 2 3 show ?thesis by blast
qed

lemma sample_missing_schema:
  "compile_result missing_schema_env sample_build_options (disk bare_world) = Some (Inl SchemaInvalid)
   \<and> list_ex is_compileSchema
        (calls_of (build missing_schema_env \<lparr>cb_database = 0\<rparr> sample_build_options) bare_world)
   \<and> compile_result invalid_schema_env (build_args (cmd_ctx stale_world) sample_options)
        (disk stale_world) = Some (Inl SchemaInvalid)
   \<and> list_ex is_compileSchema (calls_of (buildCmdBuild invalid_schema_env sample_options) stale_world)
   \<and> compile_result invalid_schema_env
        ((build_args (cmd_ctx stale_world) sample_options)\<lparr>bo_verbose := Some True\<rparr>)
        (disk stale_world) = Some (Inl SchemaInvalid)
   \<and> list_ex is_compileSchema (calls_of (auditCmdBuild invalid_schema_env sample_options) stale_world)"
  by (simp add: run_defs_ext)

theorem schema_failure_halts_build_witness:
  "compile_result missing_schema_env sample_build_options (disk bare_world) = Some (Inl SchemaInvalid)
   \<and> list_ex is_compileSchema
        (calls_of (build missing_schema_env \<lparr>cb_database = 0\<rparr> sample_build_options) bare_world)
   \<and> result_of (build missing_schema_env \<lparr>cb_database = 0\<rparr> sample_build_options) bare_world
       = Inl SchemaInvalid
   \<and> \<not> list_ex after_compile
          (calls_of (build missing_schema_env \<lparr>cb_database = 0\<rparr> sample_build_options) bare_world)
   \<and> result_of (buildCmdBuild invalid_schema_env sample_options) stale_world = Inl SchemaInvalid
   \<and> \<not> list_ex after_compile (calls_of (buildCmdBuild invalid_schema_env sample_options) stale_world)
   \<and> result_of (auditCmdBuild invalid_schema_env sample_options) stale_world = Inl SchemaInvalid
   \<and> \<not> list_ex after_compile (calls_of (auditCmdBuild invalid_schema_env sample_options) stale_world)"
proof -
  note t1 = schema_failure_halts_build[where E = missing_schema_env and this = "\<lparr>cb_database = 0\<rparr>"
      and opts = sample_build_options and w = bare_world and options = sample_options]
  note t2 = schema_failure_halts_build[where E = invalid_schema_env and this = "\<lparr>cb_database = 0\<rparr>"
      and opts = sample_build_options and w = stale_world and options = sample_options]
  from t1 sample_missing_schema
  have 1: "result_of (build missing_schema_env \<lparr>cb_database = 0\<rparr> sample_build_options) bare_world
       = Inl SchemaInvalid
   \<and> \<not> list_ex after_compile
          (calls_of (build missing_schema_env \<lparr>cb_database = 0\<rparr> sample_build_options) bare_world)"
    by blast
  from t2 sample_missing_schema
  have 2: "result_of (buildCmdBuild invalid_schema_env sample_options) stale_world = Inl SchemaInvalid
   \<and> \<not> list_ex after_compile (calls_of (buildCmdBuild invalid_schema_env sample_options) stale_world)"
    by blast
  from t2 sample_missing_schema
  have 3: "result_of (auditCmdBuild invalid_schema_env sample_options) stale_world = Inl SchemaInvalid
   \<and> \<not> list_ex after_compile (calls_of (auditCmdBuild invalid_schema_env sample_options) stale_world)"
    by blast
  from 1 2 3 sample_missing_schema show ?thesis by blast
qed

subsection \<open>Claims on the audit mode\<close>








section \<open>Properties of the login popup\<close>

lemma on_message_listening: "listening (on_message s e) = listening s"
  by (simp add: on_message_def resolve_def close_tab_def
        split: sum.splits option.splits promise_state.splits)

lemma deliver_deaf: "\<not> listening s \<Longrightarrow> deliver s es = s"
  by (induction es) simp_all

lemma deliver_settled:
  "promise s = Fulfilled t \<Longrightarrow> (authTab s = None \<or> (\<exists>p. authTab s = Some p \<and> popup_closed p)) \<Longrightarrow>
     promise (deliver s es) = Fulfilled t \<and> authTab (deliver s es) = authTab s"
proof (induction es arbitrary: s)
  case Nil
  then show ?case by simp
next
  case (Cons e es)
  have "promise (on_message s e) = Fulfilled t \<and> authTab (on_message s e) = authTab s"
    using Cons.prems
    by (auto simp: on_message_def resolve_def close_tab_def split: sum.splits option.splits)
  then show ?case using Cons.IH[of "on_message s e"] Cons.IH[of s] Cons.prems by auto
qed

lemma deliver_pending:
  "promise s = Pending \<Longrightarrow> listening s \<Longrightarrow>
     (case find is_login es of
        None \<Rightarrow> promise (deliver s es) = Pending \<and> authTab (deliver s es) = authTab s
      | Some e \<Rightarrow> promise (deliver s es) = Fulfilled (token_of (ev_data e))
                  \<and> authTab (deliver s es) = authTab (close_tab s))"
proof (induction es arbitrary: s)
  case Nil
  then show ?case by simp
next
  case (Cons e es)
  note l = on_message_listening[of s e]
  show ?case
  proof (cases "is_login e")
    case True
    then have m: "on_message s e = resolve (token_of (ev_data e)) (close_tab s)"
      by (simp add: on_message_def is_login_def)
    have p: "promise (on_message s e) = Fulfilled (token_of (ev_data e))"
      using Cons.prems by (simp add: m resolve_def close_tab_def split: option.splits)
    have a: "authTab (on_message s e) = authTab (close_tab s)"
      using Cons.prems by (simp add: m resolve_def close_tab_def split: option.splits)
    have c: "authTab (on_message s e) = None
             \<or> (\<exists>p. authTab (on_message s e) = Some p \<and> popup_closed p)"
      by (auto simp: a close_tab_def split: option.splits)
    from deliver_settled[OF p c, of es] True a Cons.prems(2) show ?thesis by simp
  next
    case False
    then have "promise (on_message s e) = Pending \<and> authTab (on_message s e) = authTab s"
      using Cons.prems by (auto simp: on_message_def is_login_def split: sum.splits)
    with Cons.IH[of "on_message s e"] False l Cons.prems(2) show ?thesis
      by (auto simp: close_tab_def split: option.splits)
  qed
qed

lemma sample_login_found: "find is_login sample_messages = Some login_message"
  by (simp add: sample_messages_def login_message_def is_login_def get_prop_def
        TINA_LOGIN_EVENT_def)

text \<open>
  C9, as stated, fails: where \<^verbatim>\<open>popupWindow\<close> throws, the promise that \<^verbatim>\<open>authenticate\<close>
  returns is rejected with the error thrown, and it stays rejected when a message event
  whose \<^verbatim>\<open>data.source\<close> is \<^verbatim>\<open>'tinaCloudLogin'\<close> arrives afterwards.
\<close>

theorem authenticate_rejects_counterexample:
  "find is_login sample_messages = Some login_message
   \<and> promise (authenticate (\<lambda>_ _ _ _. Inl (Error ''blocked'')) sample_location ''client''
               ''https://app.tina.io'')
      = Rejected (Error ''blocked'')
   \<and> promise (deliver (authenticate (\<lambda>_ _ _ _. Inl (Error ''blocked'')) sample_location ''client''
                 ''https://app.tina.io'') sample_messages)
      = Rejected (Error ''blocked'')"
  by (simp add: sample_login_found authenticate_def Let_def deliver_deaf)

text \<open>
  C9, amended. For every call of \<^verbatim>\<open>authenticate(clientId, frontendUrl)\<close> in which
  \<^verbatim>\<open>popupWindow\<close> returns, whatever message events arrive afterwards, the promise is never
  rejected; it stays pending as long as no event whose \<^verbatim>\<open>data.source\<close> is
  \<^verbatim>\<open>'tinaCloudLogin'\<close> has arrived; from the first such event on it is fulfilled with the
  \<^verbatim>\<open>id_token\<close>, \<^verbatim>\<open>access_token\<close> and \<^verbatim>\<open>refresh_token\<close> of that event's data, as they are,
  and the popup window, where one was opened, has been closed. Where \<^verbatim>\<open>popupWindow\<close> throws,
  the promise is rejected with the error thrown, whatever arrives afterwards.
\<close>

theorem authenticate_resolves_on_login_message:
  "(case pw (frontendUrl @ ''/signin?clientId='' @ clientId @ ''&origin=''
              @ protocol loc @ ''//'' @ host loc) ''_blank'' 1000 700 of
      Inl err \<Rightarrow>
        promise (deliver (authenticate pw loc clientId frontendUrl) evs) = Rejected err
    | Inr has_window \<Rightarrow>
        (\<forall>err. promise (deliver (authenticate pw loc clientId frontendUrl) evs) \<noteq> Rejected err)
        \<and> (case find is_login evs of
             None \<Rightarrow> promise (deliver (authenticate pw loc clientId frontendUrl) evs) = Pending
           | Some e \<Rightarrow>
               promise (deliver (authenticate pw loc clientId frontendUrl) evs)
                 = Fulfilled \<lparr>id_token = field (ev_data e) ''id_token'',
                              access_token = field (ev_data e) ''access_token'',
                              refresh_token = field (ev_data e) ''refresh_token''\<rparr>
               \<and> authTab (deliver (authenticate pw loc clientId frontendUrl) evs)
                   = (if has_window
                      then Some \<lparr>popup_url = frontendUrl @ ''/signin?clientId='' @ clientId
                                    @ ''&origin='' @ protocol loc @ ''//'' @ host loc,
                                  popup_closed = True\<rparr>
                      else None)))"
proof (cases "pw (frontendUrl @ ''/signin?clientId='' @ clientId @ ''&origin=''
              @ protocol loc @ ''//'' @ host loc) ''_blank'' 1000 700")
  case (Inl err)
  then have "authenticate pw loc clientId frontendUrl
      = \<lparr>promise = Rejected err, authTab = None, listening = False, uncaught = []\<rparr>"
    by (simp add: authenticate_def Let_def)
  with Inl show ?thesis by (simp add: deliver_deaf)
next
  case (Inr has_window)
  then have a: "authenticate pw loc clientId frontendUrl
      = \<lparr>promise = Pending,
         authTab = (if has_window
                    then Some \<lparr>popup_url = frontendUrl @ ''/signin?clientId='' @ clientId
                                  @ ''&origin='' @ protocol loc @ ''//'' @ host loc,
                                popup_closed = False\<rparr>
                    else None),
         listening = True, uncaught = []\<rparr>"
    by (simp add: authenticate_def Let_def)
  have "promise (authenticate pw loc clientId frontendUrl) = Pending"
    "listening (authenticate pw loc clientId frontendUrl)"
    by (simp_all add: a)
  from deliver_pending[OF this, of evs] Inr show ?thesis
    by (auto simp: a token_of_def close_tab_def split: option.splits)
qed

theorem authenticate_resolves_on_login_message_witness:
  "find is_login sample_messages = Some login_message
   \<and> promise (deliver (authenticate (\<lambda>_ _ _ _. Inr True) sample_location ''client''
                 ''https://app.tina.io'') sample_messages)
      = Fulfilled \<lparr>id_token = JString ''id1'', access_token = JString ''ac1'',
                   refresh_token = JUndefined\<rparr>
   \<and> authTab (deliver (authenticate (\<lambda>_ _ _ _. Inr True) sample_location ''client''
                 ''https://app.tina.io'') sample_messages)
      = Some \<lparr>popup_url = ''https://app.tina.io/signin?clientId=client&origin=https://example.com'',
               popup_closed = True\<rparr>"
proof -
  have f: "field (ev_data login_message) ''id_token'' = JString ''id1''"
    "field (ev_data login_message) ''access_token'' = JString ''ac1''"
    "field (ev_data login_message) ''refresh_token'' = JUndefined"
    by (simp_all add: login_message_def field_def get_prop_def)
  from authenticate_resolves_on_login_message
    [where pw = "\<lambda>_ _ _ _. Inr True" and frontendUrl = "''https://app.tina.io''"
       and clientId = "''client''" and loc = sample_location and evs = sample_messages]
  show ?thesis
    by (simp add: sample_login_found f sample_location_def)
qed

section \<open>Properties of the media list item\<close>

text \<open>
  C10. \<^verbatim>\<open>ListMediaItem\<close> renders the Insert button exactly when \<^verbatim>\<open>onSelect\<close> is given and
  the item's type is \<^verbatim>\<open>'file'\<close>, and the Delete button exactly when \<^verbatim>\<open>onDelete\<close> is given
  and the item's type is \<^verbatim>\<open>'file'\<close>; these are the only buttons it renders, and for an item
  of type \<^verbatim>\<open>'dir'\<close> it renders none, whatever callbacks are given.
\<close>

theorem ListMediaItem_buttons:
  "(insert_button (item p) \<in> set (subnodes (ListMediaItem p))
      \<longleftrightarrow> onSelect p \<and> media_type (item p) = ''file'')
   \<and> (delete_button (item p) \<in> set (subnodes (ListMediaItem p))
      \<longleftrightarrow> onDelete p \<and> media_type (item p) = ''file'')
   \<and> (filter is_button (subnodes (ListMediaItem p))
        = (if onSelect p \<and> media_type (item p) = ''file'' then [insert_button (item p)] else [])
          @ (if onDelete p \<and> media_type (item p) = ''file'' then [delete_button (item p)] else []))
   \<and> (media_type (item p) = ''dir'' \<longrightarrow> filter is_button (subnodes (ListMediaItem p)) = [])"
  by (auto simp: ListMediaItem_def Let_def insert_button_def delete_button_def Filename_def
           split: option.splits)

theorem ListMediaItem_buttons_witness:
  "media_type (item \<lparr>item = sample_dir, onSelect = True, onDelete = True\<rparr>) = ''dir''
   \<and> filter is_button (subnodes (ListMediaItem \<lparr>item = sample_dir, onSelect = True, onDelete = True\<rparr>))
       = []
   \<and> filter is_button (subnodes (ListMediaItem \<lparr>item = sample_file, onSelect = True, onDelete = False\<rparr>))
       = [insert_button sample_file]"
  using ListMediaItem_buttons[of "\<lparr>item = sample_dir, onSelect = True, onDelete = True\<rparr>"]
    ListMediaItem_buttons[of "\<lparr>item = sample_file, onSelect = True, onDelete = False\<rparr>"]
  by (simp add: sample_dir_def sample_file_def)

end
